theory Spec2Isabelle
  imports Complex_Main
begin

text \<open>
  A model of the feature pipeline of the KBO classifier
  (\<open>simulate_and_parse_backend.ipynb\<close>): the feature extractor \<open>parse\<close>, the file
  adapter \<open>compute_from_file\<close>, the simulation loop \<open>run_simulation\<close> and the
  adapter \<open>compute_from_aei\<close>. Arrays are lists, a raised exception is the left
  summand of the result, the integrator library is a record of functions, and the
  arithmetic of doubles is the arithmetic of the reals followed by the rounding to the
  nearest double.
\<close>

section \<open>Numbers\<close>

text \<open>
  The arrays of the program hold double-precision numbers (numpy's \<open>float64\<close>). A
  finite number is a real, and the three special values that numpy's arithmetic produces
  without raising (division by zero gives an infinity or not-a-number, with a warning
  only) are values of their own. The model has a single zero, which divides as the
  positive zero that a difference of equal numbers is.

  Every arithmetic operation takes the rounding of its exact result as its first
  argument \<open>rnd\<close>. The program's arithmetic is the one with \<open>rnd = float64\<close>, the
  rounding of IEEE 754 binary64 to the nearest double, ties to even. The arithmetic with
  \<open>rnd = Fin\<close> does not round: it is exact arithmetic on the reals.
\<close>

datatype fval = Fin real | PInf | NInf | NaN

datatype error = IndexError | ValueError

text \<open>The nearest integer, a tie going to the even one.\<close>

definition round_half_even :: "real \<Rightarrow> int" where
  "round_half_even x =
     (let f = \<lfloor>x\<rfloor>; r = x - of_int f
      in if r < 1 / 2 then f else if 1 / 2 < r then f + 1 else if even f then f else f + 1)"

text \<open>
  The least and the greatest exponent of a normal double. A real \<open>x\<close> with
  \<open>2 powi e \<le> \<bar>x\<bar> < 2 powi (e + 1)\<close> lies between doubles that are \<open>2 powi (e - 52)\<close>
  apart (53 significant bits); below \<open>2 powi emin\<close> the spacing stays that of the
  subnormal numbers; a result of magnitude \<open>2 powi (emax + 1)\<close> or more is an overflow
  to infinity.
\<close>

definition emin :: int where
  "emin = - 1022"

definition emax :: int where
  "emax = 1023"

definition float64 :: "real \<Rightarrow> fval" where
  "float64 x =
     (if x = 0 then Fin 0
      else
        let e = max \<lfloor>log 2 \<bar>x\<bar>\<rfloor> emin;
            q = 2 powi (e - 52);
            y = of_int (round_half_even (x / q)) * q
        in if 2 powi (emax + 1) \<le> \<bar>y\<bar> then (if 0 < x then PInf else NInf) else Fin y)"

fun fneg :: "fval \<Rightarrow> fval" where
  "fneg (Fin x) = Fin (- x)"
| "fneg PInf = NInf"
| "fneg NInf = PInf"
| "fneg NaN = NaN"

fun fadd :: "(real \<Rightarrow> fval) \<Rightarrow> fval \<Rightarrow> fval \<Rightarrow> fval" where
  "fadd rnd NaN _ = NaN"
| "fadd rnd _ NaN = NaN"
| "fadd rnd (Fin x) (Fin y) = rnd (x + y)"
| "fadd rnd PInf NInf = NaN"
| "fadd rnd NInf PInf = NaN"
| "fadd rnd PInf _ = PInf"
| "fadd rnd _ PInf = PInf"
| "fadd rnd NInf _ = NInf"
| "fadd rnd _ NInf = NInf"

definition fsub :: "(real \<Rightarrow> fval) \<Rightarrow> fval \<Rightarrow> fval \<Rightarrow> fval" where
  "fsub rnd a b = fadd rnd a (fneg b)"

fun fmul :: "(real \<Rightarrow> fval) \<Rightarrow> fval \<Rightarrow> fval \<Rightarrow> fval" where
  "fmul rnd NaN _ = NaN"
| "fmul rnd _ NaN = NaN"
| "fmul rnd (Fin x) (Fin y) = rnd (x * y)"
| "fmul rnd (Fin x) PInf = (if x = 0 then NaN else if 0 < x then PInf else NInf)"
| "fmul rnd (Fin x) NInf = (if x = 0 then NaN else if 0 < x then NInf else PInf)"
| "fmul rnd PInf (Fin y) = (if y = 0 then NaN else if 0 < y then PInf else NInf)"
| "fmul rnd NInf (Fin y) = (if y = 0 then NaN else if 0 < y then NInf else PInf)"
| "fmul rnd PInf PInf = PInf"
| "fmul rnd NInf NInf = PInf"
| "fmul rnd PInf NInf = NInf"
| "fmul rnd NInf PInf = NInf"

fun fdiv :: "(real \<Rightarrow> fval) \<Rightarrow> fval \<Rightarrow> fval \<Rightarrow> fval" where
  "fdiv rnd NaN _ = NaN"
| "fdiv rnd _ NaN = NaN"
| "fdiv rnd (Fin x) (Fin y) =
     (if y \<noteq> 0 then rnd (x / y)
      else if x = 0 then NaN else if 0 < x then PInf else NInf)"
| "fdiv rnd (Fin x) PInf = Fin 0"
| "fdiv rnd (Fin x) NInf = Fin 0"
| "fdiv rnd PInf (Fin y) = (if 0 \<le> y then PInf else NInf)"
| "fdiv rnd NInf (Fin y) = (if 0 \<le> y then NInf else PInf)"
| "fdiv rnd PInf PInf = NaN"
| "fdiv rnd PInf NInf = NaN"
| "fdiv rnd NInf PInf = NaN"
| "fdiv rnd NInf NInf = NaN"

fun fsqrt :: "(real \<Rightarrow> fval) \<Rightarrow> fval \<Rightarrow> fval" where
  "fsqrt rnd (Fin x) = (if 0 \<le> x then rnd (sqrt x) else NaN)"
| "fsqrt rnd PInf = PInf"
| "fsqrt rnd NInf = NaN"
| "fsqrt rnd NaN = NaN"

text \<open>The order of the non-NaN values; every comparison with NaN is false.\<close>

fun fle :: "fval \<Rightarrow> fval \<Rightarrow> bool" where
  "fle NaN _ = False"
| "fle _ NaN = False"
| "fle NInf _ = True"
| "fle _ PInf = True"
| "fle (Fin x) (Fin y) = (x \<le> y)"
| "fle _ _ = False"

text \<open>\<open>np.minimum\<close> and \<open>np.maximum\<close>: a NaN operand gives NaN.\<close>

definition fmin2 :: "fval \<Rightarrow> fval \<Rightarrow> fval" where
  "fmin2 a b = (if a = NaN \<or> b = NaN then NaN else if fle a b then a else b)"

definition fmax2 :: "fval \<Rightarrow> fval \<Rightarrow> fval" where
  "fmax2 a b = (if a = NaN \<or> b = NaN then NaN else if fle a b then b else a)"

section \<open>The numpy reductions used by the program\<close>

text \<open>
  \<open>np.amin\<close> and \<open>np.amax\<close> reduce with \<open>np.minimum\<close> and \<open>np.maximum\<close> from
  the first entry on; they are called on non-empty lists only (the callers below raise
  numpy's ValueError for an empty reduction before they use them).
\<close>

definition np_amin :: "fval list \<Rightarrow> fval" where
  "np_amin xs = fold (\<lambda>x acc. fmin2 acc x) (tl xs) (hd xs)"

definition np_amax :: "fval list \<Rightarrow> fval" where
  "np_amax xs = fold (\<lambda>x acc. fmax2 acc x) (tl xs) (hd xs)"

text \<open>
  The sum of a column as \<open>np.add.reduce\<close> along axis 0 takes it: from the first entry
  on, each later entry is added to the sum so far, in the order of the rows. The sum of
  no entries is 0.
\<close>

definition fsum :: "(real \<Rightarrow> fval) \<Rightarrow> fval list \<Rightarrow> fval" where
  "fsum rnd xs =
     (case xs of [] \<Rightarrow> Fin 0 | x # rest \<Rightarrow> fold (\<lambda>v acc. fadd rnd acc v) rest x)"

text \<open>\<open>np.mean\<close>: the sum divided by the number of entries.\<close>

definition np_mean :: "(real \<Rightarrow> fval) \<Rightarrow> fval list \<Rightarrow> fval" where
  "np_mean rnd xs = fdiv rnd (fsum rnd xs) (Fin (real (length xs)))"

text \<open>
  \<open>np.std\<close> with its default \<open>ddof = 0\<close>: the deviations from the mean are squared,
  averaged with \<open>np.mean\<close> and the square root is taken.
\<close>

definition np_std :: "(real \<Rightarrow> fval) \<Rightarrow> fval list \<Rightarrow> fval" where
  "np_std rnd xs =
     (let arrmean = np_mean rnd xs;
          x = map (\<lambda>v. fsub rnd v arrmean) xs
      in fsqrt rnd (np_mean rnd (map (\<lambda>d. fmul rnd d d) x)))"

section \<open>Two-dimensional arrays\<close>

text \<open>
  A two-dimensional array is the list of its rows. numpy's arrays are rectangular:
  \<open>shape m n c\<close> says that \<open>m\<close> has \<open>n\<close> rows of \<open>c\<close> entries each.
\<close>

type_synonym matrix = "fval list list"

definition shape :: "'a list list \<Rightarrow> nat \<Rightarrow> nat \<Rightarrow> bool" where
  "shape m n c = (length m = n \<and> list_all (\<lambda>r. length r = c) m)"

definition column :: "'a list list \<Rightarrow> nat \<Rightarrow> 'a list" where
  "column m j = map (\<lambda>r. r ! j) m"

text \<open>A reduction along axis 0 of an array with at least one row: one value per column.\<close>

definition axis0 :: "(fval list \<Rightarrow> fval) \<Rightarrow> matrix \<Rightarrow> fval list" where
  "axis0 f m = map (\<lambda>j. f (column m j)) [0..<length (hd m)]"

section \<open>The feature extractor\<close>

text \<open>
  \<open>parse(data)\<close>, in the arithmetic with rounding \<open>rnd\<close>. The slices
  \<open>data[:,1:]\<close>, \<open>data[1:,:]\<close> and \<open>data[:-1,:]\<close> never raise; \<open>data[0,1:]\<close>
  raises IndexError on an array without rows, \<open>diffs[:,0]\<close> on an array without
  columns, \<open>np.amin(dxdt, axis = 0)\<close> raises ValueError when \<open>dxdt\<close> has no rows,
  and \<open>a[i]\<close> raises IndexError when fewer than five element columns are present.
  Nothing else in the function raises.
\<close>

definition parse :: "(real \<Rightarrow> fval) \<Rightarrow> matrix \<Rightarrow> error + matrix" where
  "parse rnd data =
     (if data = [] then Inl IndexError
      else
        let elems = map tl data;
            initials = hd elems;
            finals = last elems;
            mins = axis0 np_amin elems;
            maxes = axis0 np_amax elems;
            dels = map2 (fsub rnd) maxes mins;
            means = axis0 (np_mean rnd) elems;
            stdev = axis0 (np_std rnd) elems;
            diffs = map2 (map2 (fsub rnd)) (tl data) (butlast data)
        in
          if length (hd data) = 0 then Inl IndexError
          else
            let dxdt = map (\<lambda>d. map (\<lambda>x. fdiv rnd x (hd d)) (tl d)) diffs
            in
              if dxdt = [] then Inl ValueError
              else
                let mindxdt = axis0 np_amin dxdt;
                    meandxdt = axis0 (np_mean rnd) dxdt;
                    maxdxdt = axis0 np_amax dxdt;
                    deldxdt = map2 (fsub rnd) maxdxdt mindxdt;
                    arrs = [initials, finals, mins, means, maxes, stdev, dels,
                            mindxdt, meandxdt, maxdxdt, deldxdt];
                    inds = [0, 1, 2, 3, 4]
                in
                  if list_all (\<lambda>a. 5 \<le> length a) arrs
                  then Inr [concat (map (\<lambda>i. map (\<lambda>a. a ! i) arrs) inds)]
                  else Inl IndexError)"

section \<open>The file adapter\<close>

text \<open>
  Python and numpy indexing with an integer: a negative index counts from the end, an
  index out of range raises IndexError.
\<close>

definition py_index :: "'a list \<Rightarrow> int \<Rightarrow> error + 'a" where
  "py_index xs i =
     (if 0 \<le> i \<and> i < int (length xs) then Inr (xs ! nat i)
      else if i < 0 \<and> - int (length xs) \<le> i then Inr (xs ! nat (int (length xs) + i))
      else Inl IndexError)"

text \<open>
  \<open>data_t[:,i]\<close> on an array with at least one row: the index is resolved against
  the number of columns as above.
\<close>

definition take_column :: "matrix \<Rightarrow> int \<Rightarrow> error + fval list" where
  "take_column m i =
     (case py_index [0..<length (hd m)] i of
        Inl e \<Rightarrow> Inl e
      | Inr j \<Rightarrow> Inr (column m j))"

text \<open>
  The loop \<open>for i in co[1:]: data = np.concatenate((data, data_t[:,co[i]][:,np.newaxis]), axis=1)\<close>:
  the loop variable \<open>i\<close> is an entry of \<open>co\<close>, and the column appended is \<open>co[i]\<close>.
\<close>

fun append_columns :: "matrix \<Rightarrow> int list \<Rightarrow> int list \<Rightarrow> matrix \<Rightarrow> error + matrix" where
  "append_columns data_t co [] data = Inr data"
| "append_columns data_t co (i # rest) data =
     (case py_index co i of
        Inl e \<Rightarrow> Inl e
      | Inr ci \<Rightarrow>
          (case take_column data_t ci of
             Inl e \<Rightarrow> Inl e
           | Inr col \<Rightarrow> append_columns data_t co rest (map2 (\<lambda>r x. r @ [x]) data col)))"

text \<open>
  The array \<open>data\<close> that \<open>compute_from_file\<close> hands to \<open>parse\<close>. The argument
  \<open>table\<close> is the content of the file as \<open>np.loadtxt\<close> reads it, one list per row
  (the reading itself and its failure on text that is not a number are not modelled).
  \<open>np.loadtxt\<close> returns an array of fewer than two dimensions for a file with fewer
  than two rows or fewer than two columns, and \<open>data_t[:101,:]\<close> then raises
  IndexError. A slice \<open>[:101]\<close> of a shorter array is the whole array.
\<close>

definition compute_from_file_data :: "matrix \<Rightarrow> int list \<Rightarrow> error + matrix" where
  "compute_from_file_data table col_order =
     (if length table < 2 \<or> length (hd table) < 2 then Inl IndexError
      else
        let data_t = take 101 table;
            co = col_order
        in case py_index co 0 of
             Inl e \<Rightarrow> Inl e
           | Inr c0 \<Rightarrow>
               (case take_column data_t c0 of
                  Inl e \<Rightarrow> Inl e
                | Inr col0 \<Rightarrow> append_columns data_t co (tl co) (map (\<lambda>x. [x]) col0)))"

definition compute_from_file :: "(real \<Rightarrow> fval) \<Rightarrow> matrix \<Rightarrow> int list \<Rightarrow> error + matrix" where
  "compute_from_file rnd table col_order =
     (case compute_from_file_data table col_order of
        Inl e \<Rightarrow> Inl e
      | Inr data \<Rightarrow> parse rnd data)"

definition default_col_order :: "int list" where
  "default_col_order = [0, 1, 2, 3, 4, 5]"

section \<open>The simulation runner\<close>

text \<open>
  The N-body integrator is an external library. Its simulation object is a value of
  an arbitrary type \<open>'s\<close>, and the calls the program makes on it are the fields of
  a record of functions; a call that mutates the simulation returns the new one.
  \<open>calculate_orbits\<close> stands for \<open>sim.calculate_orbits(primary=sim.calculate_com())\<close>,
  \<open>add\<close> for \<open>sim.add\<close> with orbital elements. The library's own exceptions are
  not modelled. The numbers the library returns are doubles. The arithmetic of this
  part of the program is the program's own, with the rounding \<open>float64\<close>.
\<close>

record orbit =
  orbit_a :: fval
  orbit_e :: fval
  orbit_inc :: fval
  orbit_Omega :: fval
  orbit_omega :: fval
  orbit_M :: fval

record 'p particle_args =
  arg_a :: fval
  arg_e :: fval
  arg_inc :: fval
  arg_omega :: fval
  arg_Omega :: fval
  arg_M :: fval
  arg_primary :: "'p option"

record ('s, 'p) rebound =
  sim_N :: "'s \<Rightarrow> int"
  set_N_active :: "int \<Rightarrow> 's \<Rightarrow> 's"
  move_to_com :: "'s \<Rightarrow> 's"
  set_integrator :: "string \<Rightarrow> 's \<Rightarrow> 's"
  set_dt :: "fval \<Rightarrow> 's \<Rightarrow> 's"
  integrate :: "real \<Rightarrow> 's \<Rightarrow> 's"
  calculate_orbits :: "'s \<Rightarrow> orbit list"
  calculate_com :: "'s \<Rightarrow> 'p"
  add :: "'p particle_args \<Rightarrow> 's \<Rightarrow> 's"

text \<open>
  \<open>np.degrees\<close> multiplies by the double that \<open>180.0 / pi\<close> is,
  \<open>0x1.ca5dc1a63c1f8p+5\<close>, and \<open>np.radians\<close> by the double that \<open>pi / 180.0\<close>
  is, \<open>0x1.1df46a2529d39p-6\<close>.
\<close>

definition degrees :: "fval \<Rightarrow> fval" where
  "degrees x = fmul float64 x (Fin (1007958012753983 / 2 ^ 44))"

definition radians :: "fval \<Rightarrow> fval" where
  "radians x = fmul float64 x (Fin (5030569068109113 / 2 ^ 58))"

text \<open>
  The remainder \<open>x % y\<close> of doubles, as numpy computes it. The C function \<open>fmod\<close>
  gives the exact remainder of the division truncated towards zero, which has the sign
  of \<open>x\<close>. When it is not zero and its sign is not the sign of the divisor, the divisor
  is added to it, and this addition rounds. The remainder of an infinity or of
  not-a-number, and the remainder by zero, is not-a-number.
\<close>

definition fmod :: "real \<Rightarrow> real \<Rightarrow> real" where
  "fmod x y = x - y * of_int (if 0 \<le> x / y then \<lfloor>x / y\<rfloor> else \<lceil>x / y\<rceil>)"

fun py_mod :: "fval \<Rightarrow> real \<Rightarrow> fval" where
  "py_mod (Fin x) y =
     (if y = 0 then NaN
      else
        let m = fmod x y
        in if m = 0 then Fin 0
           else if (y < 0) \<noteq> (m < 0) then float64 (m + y) else Fin m)"
| "py_mod PInf y = NaN"
| "py_mod NInf y = NaN"
| "py_mod NaN y = NaN"

text \<open>
  A line of the trace file before it is formatted: the header text, or the identifier
  and the seven numbers \<open>t, a, e, i, Omega, omega, M\<close> that are joined with spaces.
\<close>

datatype trace_line = Text string | Values int "fval list"

text \<open>\<open>np.linspace(0, 100E3, 101)\<close>: the multiples of 1000 from 0 to 100000.\<close>

definition time_outs :: "real list" where
  "time_outs = map (\<lambda>k. real k * 1000) [0..<101]"

definition orbit_step :: "real \<Rightarrow> orbit \<Rightarrow> fval list" where
  "orbit_step t ob =
     [Fin t, orbit_a ob, orbit_e ob, degrees (orbit_inc ob),
      py_mod (degrees (orbit_Omega ob)) 360, py_mod (degrees (orbit_omega ob)) 360]"

definition orbit_line :: "int \<Rightarrow> real \<Rightarrow> orbit \<Rightarrow> trace_line" where
  "orbit_line ident t ob =
     Values ident
       [Fin t, orbit_a ob, orbit_e ob, degrees (orbit_inc ob),
        py_mod (degrees (orbit_Omega ob)) 360, py_mod (degrees (orbit_omega ob)) 360,
        py_mod (degrees (orbit_M ob)) 360]"

text \<open>
  The loop over \<open>time_outs\<close>, with the simulation, the rows collected so far and the
  lines written so far as its state. \<open>orbits[-1]\<close> and \<open>orbits[-2]\<close> raise
  IndexError when the list is too short. The first step becomes the array \<open>data\<close>
  and every later step is stacked under it with \<open>np.vstack\<close>: after the 101 steps
  \<open>data\<close> is the list of the 101 rows.
\<close>

fun run_steps ::
  "('s, 'p) rebound \<Rightarrow> bool \<Rightarrow> real list \<Rightarrow> 's \<Rightarrow> matrix \<Rightarrow> trace_line list
     \<Rightarrow> error + ('s \<times> matrix \<times> trace_line list)" where
  "run_steps rb writeout [] sim data file = Inr (sim, data, file)"
| "run_steps rb writeout (t # ts) sim data file =
     (let sim1 = (if t > 0 then integrate rb t sim else sim);
          orbits = calculate_orbits rb sim1
      in case py_index orbits (- 1) of
           Inl e \<Rightarrow> Inl e
         | Inr ob \<Rightarrow>
             (let step = orbit_step t ob;
                  data1 = data @ [step]
              in if writeout then
                   (case py_index orbits (- 2) of
                      Inl e \<Rightarrow> Inl e
                    | Inr o_N \<Rightarrow>
                        run_steps rb writeout ts sim1 data1
                          (file @ [orbit_line (- 1) t o_N, orbit_line 0 t ob]))
                 else run_steps rb writeout ts sim1 data1 file))"

text \<open>
  \<open>run_simulation(sim, savename)\<close> returns the simulation and the rows; the third
  component is the content of the trace file when one is written. The time step
  \<open>0.1\<close> is the double nearest to one tenth.
\<close>

definition run_simulation ::
  "('s, 'p) rebound \<Rightarrow> 's \<Rightarrow> string
     \<Rightarrow> error + ('s \<times> matrix \<times> trace_line list option)" where
  "run_simulation rb sim savename =
     (let writeout = (savename \<noteq> []);
          file = (if writeout then [Text ''id, t, a, e, i, Omega, omega, M''] else []);
          sim1 = set_N_active rb (sim_N rb sim - 1) sim;
          sim2 = move_to_com rb sim1;
          sim3 = set_integrator rb ''mercurius'' sim2;
          sim4 = set_dt rb (float64 (1 / 10)) sim3
      in case run_steps rb writeout time_outs sim4 [] file of
           Inl e \<Rightarrow> Inl e
         | Inr (sim', data, file') \<Rightarrow>
             Inr (sim', data, if writeout then Some file' else None))"

section \<open>The adapter from orbital elements\<close>

text \<open>
  The arguments of the call \<open>sim.add(a=a, e=ecc, ..., primary=None)\<close> in
  \<open>compute_from_aei\<close>. The local variable \<open>primary\<close> is assigned from the flag
  and is not used in the call.
\<close>

definition compute_from_aei_args ::
  "('s, 'p) rebound \<Rightarrow> 's \<Rightarrow> fval \<Rightarrow> fval \<Rightarrow> fval \<Rightarrow> fval \<Rightarrow> fval \<Rightarrow> fval \<Rightarrow> bool
     \<Rightarrow> 'p particle_args" where
  "compute_from_aei_args rb sim a ecc inc Omega omega M barycentric =
     (let primary = (if barycentric then Some (calculate_com rb sim) else None)
      in \<lparr>arg_a = a, arg_e = ecc, arg_inc = radians inc, arg_omega = radians omega,
          arg_Omega = radians Omega, arg_M = radians M, arg_primary = None\<rparr>)"

text \<open>
  \<open>compute_from_aei\<close> from the simulation that \<open>start_simulation(epoch)\<close> returned
  (Sun and giant planets, fetched by the library): the body is added, the simulation
  is run and the rows go to \<open>parse\<close>. The energy diagnostic is printed only.
\<close>

definition compute_from_aei ::
  "('s, 'p) rebound \<Rightarrow> 's \<Rightarrow> fval \<Rightarrow> fval \<Rightarrow> fval \<Rightarrow> fval \<Rightarrow> fval \<Rightarrow> fval \<Rightarrow> bool
     \<Rightarrow> string \<Rightarrow> error + matrix" where
  "compute_from_aei rb sim a ecc inc Omega omega M barycentric savename =
     (let sim1 = add rb (compute_from_aei_args rb sim a ecc inc Omega omega M barycentric) sim
      in case run_simulation rb sim1 savename of
           Inl e \<Rightarrow> Inl e
         | Inr (sim', data, file) \<Rightarrow> parse float64 data)"

section \<open>The layout of the feature vector\<close>

text \<open>
  The feature vector as the specification describes it: for each of the element columns
  1 to 5 (a, e, i, Omega, omega) eleven values, namely the initial value (row 0), the
  final value (last row), the minimum, mean, maximum and standard deviation of the
  column, its range (maximum minus minimum), and the minimum, mean, maximum and range
  of the rates. A rate is the difference of the element between two consecutive rows
  divided by the difference of the times (column 0) of the same rows.
\<close>

definition rates :: "(real \<Rightarrow> fval) \<Rightarrow> matrix \<Rightarrow> nat \<Rightarrow> fval list" where
  "rates rnd data j =
     map (\<lambda>k. fdiv rnd (fsub rnd (data ! Suc k ! j) (data ! k ! j))
                        (fsub rnd (data ! Suc k ! 0) (data ! k ! 0)))
         [0..<length data - 1]"

definition element_features :: "(real \<Rightarrow> fval) \<Rightarrow> matrix \<Rightarrow> nat \<Rightarrow> fval list" where
  "element_features rnd data j =
     (let x = column data j; r = rates rnd data j
      in [hd x, last x, np_amin x, np_mean rnd x, np_amax x, np_std rnd x,
          fsub rnd (np_amax x) (np_amin x),
          np_amin r, np_mean rnd r, np_amax r, fsub rnd (np_amax r) (np_amin r)])"

definition feature_vector :: "(real \<Rightarrow> fval) \<Rightarrow> matrix \<Rightarrow> fval list" where
  "feature_vector rnd data = concat (map (element_features rnd data) [1, 2, 3, 4, 5])"

text \<open>The \<open>k\<close>-th statistic of the \<open>j\<close>-th element group of a feature vector.\<close>

definition feat :: "'a list \<Rightarrow> nat \<Rightarrow> nat \<Rightarrow> 'a" where
  "feat fs j k = fs ! (11 * j + k)"

section \<open>Statistics over the reals\<close>




section \<open>Properties of arrays and of feature vectors\<close>

text \<open>\<open>np.isfinite\<close>: neither an infinity nor not-a-number.\<close>

fun isfinite :: "fval \<Rightarrow> bool" where
  "isfinite (Fin x) = True"
| "isfinite _ = False"

text \<open>A finite number greater than zero.\<close>

fun positive :: "fval \<Rightarrow> bool" where
  "positive (Fin x) = (0 < x)"
| "positive _ = False"

text \<open>
  Every difference of the times (column 0) of two consecutive rows, as the program
  computes it, is a finite number greater than zero.
\<close>

definition time_steps_positive :: "matrix \<Rightarrow> bool" where
  "time_steps_positive data =
     list_all (\<lambda>k. positive (fsub float64 (data ! Suc k ! 0) (data ! k ! 0)))
       [0..<length data - 1]"

text \<open>
  The specification's trajectory sample: 101 rows of 6 columns with increasing time.
\<close>

definition trajectory_sample :: "matrix \<Rightarrow> bool" where
  "trajectory_sample data = (shape data 101 6 \<and> time_steps_positive data)"

text \<open>
  The consistency of the \<open>j\<close>-th element group of a feature vector, in the order
  \<open>fle\<close> of the values that are not not-a-number: the initial and the final value
  lie between the minimum and the maximum, the range is the maximum minus the minimum
  and is not negative, the standard deviation is not negative, the rate minimum is at
  most the rate maximum, and the rate range is their difference; it is not negative,
  except that it is not-a-number when the rate minimum and the rate maximum are the same
  infinity.
\<close>

definition group_consistent :: "fval list \<Rightarrow> nat \<Rightarrow> bool" where
  "group_consistent fs j =
     (let initial = feat fs j 0; final = feat fs j 1; mn = feat fs j 2;
          mx = feat fs j 4; sd = feat fs j 5; range = feat fs j 6;
          rate_min = feat fs j 7; rate_max = feat fs j 9; rate_range = feat fs j 10
      in fle mn initial \<and> fle initial mx \<and> fle mn final \<and> fle final mx
         \<and> range = fsub float64 mx mn \<and> fle (Fin 0) range \<and> fle (Fin 0) sd
         \<and> fle rate_min rate_max \<and> rate_range = fsub float64 rate_max rate_min
         \<and> (if rate_min = rate_max \<and> \<not> isfinite rate_min then rate_range = NaN
             else fle (Fin 0) rate_range))"

text \<open>A recorded angle is a number that is at least 0 and less than 360.\<close>

fun angle_in_range :: "fval \<Rightarrow> bool" where
  "angle_in_range (Fin x) = (0 \<le> x \<and> x < 360)"
| "angle_in_range _ = False"

section \<open>Example inputs\<close>

text \<open>
  A trajectory at the 101 checkpoint times whose eccentricity column holds the double
  \<open>0.6399999999999935\<close> in every row, the same trajectory with the time of row 0
  repeated in row 1, and a trajectory of two rows. All their numbers are doubles.
\<close>

definition example_sample :: "real list list" where
  "example_sample =
     map (\<lambda>k. [real k * 1000, 40 + real k / 128, 90071992547409 / 2 ^ 47, 5, 44, 291])
       [0..<101]"

definition degenerate_sample :: "real list list" where
  "degenerate_sample =
     map (\<lambda>k. [if k = 0 then 0 else real (k - 1) * 1000, 40 + real k / 128, 1 / 4, 5, 44, 291])
       [0..<101]"

definition short_sample :: "real list list" where
  "short_sample = [[0, 40, 1 / 4, 5, 44, 291], [1000, 41, 1 / 4, 6, 45, 290]]"

text \<open>
  A trajectory of four rows, ten years apart, whose semi-major axis grows by 1 from row
  to row.
\<close>

definition rate_sample :: "real list list" where
  "rate_sample = map (\<lambda>k. [real k * 10, real k, 1 / 4, 5, 44, 291]) [0..<4]"

text \<open>
  Two doubles, \<open>2 powi (- 1000)\<close> and \<open>2 powi 1000\<close>, a trajectory of two rows
  whose semi-major axis grows by the second in the time of the first, and an array of
  two rows with not-a-number as the first semi-major axis.
\<close>

definition tiny :: real where
  "tiny = 2 powi (- 1000)"

definition huge :: real where
  "huge = 2 powi 1000"

definition steep_sample :: "real list list" where
  "steep_sample = [[0, 0, 1 / 4, 5, 44, 291], [tiny, huge, 1 / 4, 5, 44, 291]]"

definition nan_sample :: matrix where
  "nan_sample =
     [[Fin 0, NaN, Fin (1 / 4), Fin 5, Fin 44, Fin 291],
      [Fin 1000, Fin 40, Fin (1 / 4), Fin 5, Fin 44, Fin 291]]"

text \<open>Tables as read from a file, of 101, 50 and 150 rows.\<close>

definition example_table :: matrix where
  "example_table = map (map Fin) example_sample"

definition table_50 :: matrix where
  "table_50 = map (\<lambda>k. map Fin [real k * 1000, 40 + real k / 128, 1 / 4, 5, 44, 291]) [0..<50]"

definition table_150 :: matrix where
  "table_150 = map (\<lambda>k. map Fin [real k * 1000, 40 + real k / 128, 1 / 4, 5, 44, 291]) [0..<150]"

text \<open>A table of 101 rows with two more columns.\<close>

definition wide_table :: matrix where
  "wide_table = map (\<lambda>k. map Fin [real k * 1000, 40 + real k / 128, 1 / 4, 5, 44, 291, 45, 7]) [0..<101]"

text \<open>
  An integrator whose every call leaves the simulation as it is and whose five orbits
  all have their node at \<open>- 2 powi (- 60)\<close> radians (about \<open>-8.7e-19\<close>), an
  inclination of one eighth of a radian and their pericenter at 0.
\<close>

definition example_orbit :: orbit where
  "example_orbit =
     \<lparr>orbit_a = Fin 40, orbit_e = Fin (1 / 4), orbit_inc = Fin (1 / 8),
      orbit_Omega = Fin (- (1 / 2 ^ 60)), orbit_omega = Fin 0, orbit_M = Fin 0\<rparr>"

definition example_rebound :: "(unit, unit) rebound" where
  "example_rebound =
     \<lparr>sim_N = (\<lambda>s. 6), set_N_active = (\<lambda>n s. s), move_to_com = (\<lambda>s. s),
      set_integrator = (\<lambda>n s. s), set_dt = (\<lambda>d s. s), integrate = (\<lambda>t s. s),
      calculate_orbits = (\<lambda>s. [example_orbit, example_orbit, example_orbit, example_orbit,
        example_orbit]),
      calculate_com = (\<lambda>s. ()), add = (\<lambda>p s. s)\<rparr>"

text \<open>
  The row that \<open>run_simulation\<close> records at time \<open>t\<close> from the example orbit, and
  the numbers of its trace lines.
\<close>

definition example_row :: "real \<Rightarrow> fval list" where
  "example_row t = [Fin t, Fin 40, Fin (1 / 4), Fin (1007958012753983 / 2 ^ 47), Fin 360, Fin 0]"

definition example_lines :: "real \<Rightarrow> trace_line list" where
  "example_lines t = [Values (- 1) (example_row t @ [Fin 0]), Values 0 (example_row t @ [Fin 0])]"

section \<open>The intermediate arrays of the feature extractor\<close>

text \<open>The arrays \<open>diffs\<close> and \<open>dxdt\<close> of \<open>parse\<close>, named for the proofs.\<close>

definition diffs_of :: "(real \<Rightarrow> fval) \<Rightarrow> matrix \<Rightarrow> matrix" where
  "diffs_of rnd data = map2 (map2 (fsub rnd)) (tl data) (butlast data)"

definition dxdt_of :: "(real \<Rightarrow> fval) \<Rightarrow> matrix \<Rightarrow> matrix" where
  "dxdt_of rnd data = map (\<lambda>d. map (\<lambda>x. fdiv rnd x (hd d)) (tl d)) (diffs_of rnd data)"

section \<open>Shapes, columns and reductions\<close>

lemma shape_row: "shape m n c \<Longrightarrow> r \<in> set m \<Longrightarrow> length r = c"
  by (simp add: shape_def list_all_iff)

lemma shape_nth: "shape m n c \<Longrightarrow> k < n \<Longrightarrow> length (m ! k) = c"
  by (simp add: shape_def list_all_length)

lemma shape_hd: "shape m n c \<Longrightarrow> 0 < n \<Longrightarrow> length (hd m) = c"
  by (cases m) (auto simp add: shape_def)

lemma shape_tl: "shape m n c \<Longrightarrow> shape (map tl m) n (c - 1)"
  by (simp add: shape_def list_all_iff)

lemma column_tl:
  assumes "shape m n c" and "Suc j < c"
  shows "column (map tl m) j = column m (Suc j)"
  unfolding column_def using assms
  by (auto simp add: shape_def list_all_iff nth_tl)

lemma length_column [simp]: "length (column m j) = length m"
  by (simp add: column_def)

lemma axis0_nth:
  assumes "shape m n c" and "0 < n" and "j < c"
  shows "axis0 f m ! j = f (column m j)"
  using assms by (simp add: axis0_def shape_hd)

lemma length_axis0:
  assumes "shape m n c" and "0 < n"
  shows "length (axis0 f m) = c"
  using assms by (simp add: axis0_def shape_hd)

lemma shape_Fin: "shape m n c \<Longrightarrow> shape (map (map Fin) m) n c"
  by (simp add: shape_def list_all_iff)

lemma column_Fin:
  assumes "shape m n c" and "j < c"
  shows "column (map (map Fin) m) j = map Fin (column m j)"
  using assms by (auto simp add: column_def shape_def list_all_iff)

lemma shape_take:
  assumes "shape m n c"
  shows "shape (take k m) (min n k) c"
  using assms by (auto simp add: shape_def list_all_iff min.commute dest: in_set_takeD)

section \<open>The feature extractor computes the specified layout\<close>

lemma length_diffs: "length (diffs_of rnd data) = length data - 1"
  by (simp add: diffs_of_def)

lemma diffs_nth:
  assumes "shape data n c" and "Suc k < n"
  shows "diffs_of rnd data ! k = map2 (fsub rnd) (data ! Suc k) (data ! k)"
proof -
  have n: "length data = n" using assms by (simp add: shape_def)
  then show ?thesis using assms
    by (simp add: diffs_of_def nth_tl nth_butlast)
qed

lemma dxdt_shape:
  assumes "shape data n c" and "0 < c"
  shows "shape (dxdt_of rnd data) (n - 1) (c - 1)"
proof -
  have n: "length data = n" using assms by (simp add: shape_def)
  have "length (dxdt_of rnd data ! k) = c - 1" if "k < n - 1" for k
  proof -
    have "Suc k < n" using that by simp
    then show ?thesis using assms n that
      by (simp add: dxdt_of_def length_diffs diffs_nth shape_nth)
  qed
  then show ?thesis
    by (simp add: shape_def list_all_length dxdt_of_def length_diffs n)
qed

lemma dxdt_column:
  assumes "shape data n c" and "Suc j < c"
  shows "column (dxdt_of rnd data) j = rates rnd data (Suc j)"
proof (rule nth_equalityI)
  have n: "length data = n" using assms by (simp add: shape_def)
  show "length (column (dxdt_of rnd data) j) = length (rates rnd data (Suc j))"
    by (simp add: rates_def dxdt_of_def length_diffs)
  fix k assume "k < length (column (dxdt_of rnd data) j)"
  then have k: "Suc k < n" and k': "k < n - 1" by (simp_all add: dxdt_of_def length_diffs n)
  have l1: "length (data ! Suc k) = c" and l2: "length (data ! k) = c"
    using assms k by (simp_all add: shape_nth)
  define d where "d = map2 (fsub rnd) (data ! Suc k) (data ! k)"
  have ld: "length d = c" by (simp add: d_def l1 l2)
  have dne: "d \<noteq> []" using ld assms(2) by auto
  have "hd d = d ! 0" using dne by (simp add: hd_conv_nth)
  then have d0: "hd d = fsub rnd (data ! Suc k ! 0) (data ! k ! 0)"
    using assms(2) l1 l2 by (simp add: d_def)
  have dj: "tl d ! j = fsub rnd (data ! Suc k ! Suc j) (data ! k ! Suc j)"
    using ld assms(2) l1 l2 by (simp add: nth_tl d_def)
  have "column (dxdt_of rnd data) j ! k = fdiv rnd (tl d ! j) (hd d)"
    using k k' assms ld n
    by (simp add: column_def dxdt_of_def length_diffs diffs_nth d_def)
  also have "\<dots> = rates rnd data (Suc j) ! k"
    using k' n by (simp add: rates_def d0 dj)
  finally show "column (dxdt_of rnd data) j ! k = rates rnd data (Suc j) ! k" .
qed

lemma parse_unfold:
  assumes "shape data n c" and "2 \<le> n" and "6 \<le> c"
  shows "parse rnd data =
     Inr [concat (map (\<lambda>i. map (\<lambda>a. a ! i)
        [hd (map tl data), last (map tl data),
         axis0 np_amin (map tl data), axis0 (np_mean rnd) (map tl data),
         axis0 np_amax (map tl data), axis0 (np_std rnd) (map tl data),
         map2 (fsub rnd) (axis0 np_amax (map tl data)) (axis0 np_amin (map tl data)),
         axis0 np_amin (dxdt_of rnd data), axis0 (np_mean rnd) (dxdt_of rnd data),
         axis0 np_amax (dxdt_of rnd data),
         map2 (fsub rnd) (axis0 np_amax (dxdt_of rnd data)) (axis0 np_amin (dxdt_of rnd data))])
        [0, 1, 2, 3, 4])]"
proof -
  have n: "length data = n" using assms by (simp add: shape_def)
  have ne: "data \<noteq> []" using n assms by auto
  have c: "length (hd data) = c" using assms by (simp add: shape_hd)
  have st: "shape (map tl data) n (c - 1)" using shape_tl [OF assms(1)] .
  have sd: "shape (dxdt_of rnd data) (n - 1) (c - 1)"
    using dxdt_shape [OF assms(1)] assms(3) by simp
  have dne: "dxdt_of rnd data \<noteq> []" using sd assms by (auto simp add: shape_def)
  have h: "length (hd (map tl data)) = c - 1" using st assms by (simp add: shape_hd)
  have "last (map tl data) \<in> set (map tl data)" using ne by (intro last_in_set) simp
  then have l: "length (last (map tl data)) = c - 1" by (rule shape_row [OF st])
  have a1: "length (axis0 f (map tl data)) = c - 1" for f
    using st assms by (simp add: length_axis0)
  have a2: "length (axis0 f (dxdt_of rnd data)) = c - 1" for f
    using sd assms by (simp add: length_axis0)
  show ?thesis
    unfolding parse_def Let_def diffs_of_def [symmetric] dxdt_of_def [symmetric]
    using ne c dne h l a1 a2 assms(3) by simp
qed

lemma features_group:
  assumes "shape data n c" and "2 \<le> n" and "6 \<le> c" and "i < 5"
  shows "map (\<lambda>a. a ! i)
        [hd (map tl data), last (map tl data),
         axis0 np_amin (map tl data), axis0 (np_mean rnd) (map tl data),
         axis0 np_amax (map tl data), axis0 (np_std rnd) (map tl data),
         map2 (fsub rnd) (axis0 np_amax (map tl data)) (axis0 np_amin (map tl data)),
         axis0 np_amin (dxdt_of rnd data), axis0 (np_mean rnd) (dxdt_of rnd data),
         axis0 np_amax (dxdt_of rnd data),
         map2 (fsub rnd) (axis0 np_amax (dxdt_of rnd data)) (axis0 np_amin (dxdt_of rnd data))]
     = element_features rnd data (i + 1)"
proof -
  have n: "length data = n" using assms by (simp add: shape_def)
  have ne: "data \<noteq> []" using n assms by auto
  have i: "Suc i < c" and i': "i < c - 1" using assms by simp_all
  have st: "shape (map tl data) n (c - 1)" using shape_tl [OF assms(1)] .
  have sd: "shape (dxdt_of rnd data) (n - 1) (c - 1)"
    using dxdt_shape [OF assms(1)] assms(3) by simp
  have n0: "0 < n" and n1: "0 < n - 1" using assms by simp_all
  have hdl: "length (hd data) = c" using assms by (simp add: shape_hd)
  have "last data \<in> set data" using ne by simp
  then have lal: "length (last data) = c" by (rule shape_row [OF assms(1)])
  have e1: "hd (map tl data) ! i = hd (column data (Suc i))"
    using ne hdl i by (simp add: hd_map column_def nth_tl)
  have e2: "last (map tl data) ! i = last (column data (Suc i))"
    using ne lal i by (simp add: last_map column_def nth_tl)
  have e3: "axis0 f (map tl data) ! i = f (column data (Suc i))" for f
    using axis0_nth [OF st n0 i'] column_tl [OF assms(1) i] by simp
  have e4: "axis0 f (dxdt_of rnd data) ! i = f (rates rnd data (Suc i))" for f
    using axis0_nth [OF sd n1 i'] dxdt_column [OF assms(1) i] by simp
  have a1: "length (axis0 f (map tl data)) = c - 1" for f
    using st n0 by (rule length_axis0)
  have a2: "length (axis0 f (dxdt_of rnd data)) = c - 1" for f
    using sd n1 by (rule length_axis0)
  show ?thesis
    using i' by (simp add: element_features_def Let_def e1 e2 e3 e4 a1 a2)
qed

lemma parse_features:
  assumes "shape data n c" and "2 \<le> n" and "6 \<le> c"
  shows "parse rnd data = Inr [feature_vector rnd data]"
proof -
  define arrs where "arrs =
        [hd (map tl data), last (map tl data),
         axis0 np_amin (map tl data), axis0 (np_mean rnd) (map tl data),
         axis0 np_amax (map tl data), axis0 (np_std rnd) (map tl data),
         map2 (fsub rnd) (axis0 np_amax (map tl data)) (axis0 np_amin (map tl data)),
         axis0 np_amin (dxdt_of rnd data), axis0 (np_mean rnd) (dxdt_of rnd data),
         axis0 np_amax (dxdt_of rnd data),
         map2 (fsub rnd) (axis0 np_amax (dxdt_of rnd data)) (axis0 np_amin (dxdt_of rnd data))]"
  have g: "map (\<lambda>a. a ! i) arrs = element_features rnd data (i + 1)" if "i < 5" for i
    unfolding arrs_def using assms that by (rule features_group)
  have "map (\<lambda>i. map (\<lambda>a. a ! i) arrs) [0, 1, 2, 3, 4]
      = map (\<lambda>i. element_features rnd data (i + 1)) [0, 1, 2, 3, 4]"
    by (rule map_cong) (auto simp add: g)
  also have "\<dots> = map (element_features rnd data) [1, 2, 3, 4, 5]"
    by (simp add: eval_nat_numeral)
  finally show ?thesis
    unfolding parse_unfold [OF assms] feature_vector_def arrs_def by simp
qed

lemma length_element_features [simp]: "length (element_features rnd data j) = 11"
  by (simp add: element_features_def Let_def)

lemma length_feature_vector [simp]: "length (feature_vector rnd data) = 55"
  by (simp add: feature_vector_def)

lemma concat_nth_uniform:
  assumes "\<forall>l \<in> set ls. length l = m" and "j < length ls" and "k < m"
  shows "concat ls ! (m * j + k) = ls ! j ! k"
  using assms
proof (induction ls arbitrary: j)
  case Nil
  then show ?case by simp
next
  case (Cons l ls)
  show ?case
  proof (cases j)
    case 0
    then show ?thesis using Cons.prems by (simp add: nth_append)
  next
    case (Suc i)
    have "m * j + k = length l + (m * i + k)" using Suc Cons.prems by simp
    then show ?thesis using Suc Cons by (simp add: nth_append)
  qed
qed

lemma feat_feature_vector:
  assumes "j < 5" and "k < 11"
  shows "feat (feature_vector rnd data) j k = element_features rnd data (j + 1) ! k"
proof -
  have "concat (map (element_features rnd data) [1, 2, 3, 4, 5]) ! (11 * j + k)
      = map (element_features rnd data) [1, 2, 3, 4, 5] ! j ! k"
    using assms by (intro concat_nth_uniform) auto
  also have "map (element_features rnd data) [1, 2, 3, 4, 5] ! j = element_features rnd data (j + 1)"
  proof -
    have "j = 0 \<or> j = 1 \<or> j = 2 \<or> j = 3 \<or> j = 4" using assms(1) by arith
    then show ?thesis by (elim disjE) (simp_all add: eval_nat_numeral)
  qed
  finally show ?thesis by (simp add: feat_def feature_vector_def)
qed

section \<open>The rounding to the nearest double\<close>

lemma float64_zero [simp]: "float64 0 = Fin 0"
  by (simp add: float64_def)

lemma round_half_even_of_int [simp]: "round_half_even (of_int z) = z"
  by (simp add: round_half_even_def)

lemma powi_pos: "0 < (2::real) powi e"
  by simp

lemma binade:
  assumes "2 powi e \<le> \<bar>x\<bar>" and "\<bar>x\<bar> < 2 powi (e + 1)"
  shows "\<lfloor>log 2 \<bar>x\<bar>\<rfloor> = e"
proof -
  have x: "0 < \<bar>x\<bar>" using assms(1) powi_pos [of e] by linarith
  have a: "2 powr real_of_int e = 2 powi e" by (simp add: powr_real_of_int')
  have b: "2 powr real_of_int (e + 1) = 2 powi (e + 1)" by (rule powr_real_of_int') auto
  have "2 powr real_of_int e \<le> \<bar>x\<bar> \<and> \<bar>x\<bar> < 2 powr (real_of_int e + 1)"
    using assms a b by (simp add: add.commute)
  then show ?thesis using x floor_log_eq_powr_iff [of "\<bar>x\<bar>" 2 e] by simp
qed

lemma float64_eval:
  assumes "2 powi e \<le> \<bar>x\<bar>" and "\<bar>x\<bar> < 2 powi (e + 1)" and "emin \<le> e"
    and "round_half_even (x / 2 powi (e - 52)) = n"
    and "\<bar>of_int n * 2 powi (e - 52)\<bar> < (2::real) powi (emax + 1)"
  shows "float64 x = Fin (of_int n * 2 powi (e - 52))"
proof -
  have "0 < \<bar>x\<bar>" using assms(1) powi_pos [of e] by linarith
  then have x: "x \<noteq> 0" by auto
  have e: "max \<lfloor>log 2 \<bar>x\<bar>\<rfloor> emin = e"
    using binade [OF assms(1,2)] assms(3) by simp
  show ?thesis
    unfolding float64_def e Let_def using x assms(4,5) by simp
qed

lemma float64_nonneg:
  assumes "0 \<le> x"
  shows "float64 x = PInf \<or> (\<exists>y\<ge>0. float64 x = Fin y)"
proof (cases "x = 0")
  case True
  then show ?thesis by simp
next
  case False
  define e where "e = max \<lfloor>log 2 \<bar>x\<bar>\<rfloor> emin"
  define q :: real where "q = 2 powi (e - 52)"
  define y where "y = of_int (round_half_even (x / q)) * q"
  have q: "0 < q" by (simp add: q_def)
  have "0 \<le> x / q" using assms q by simp
  then have "0 \<le> round_half_even (x / q)"
    by (auto simp add: round_half_even_def Let_def)
  then have y: "0 \<le> y" using q by (simp add: y_def)
  have "float64 x = (if 2 powi (emax + 1) \<le> \<bar>y\<bar> then (if 0 < x then PInf else NInf) else Fin y)"
    using False by (simp add: float64_def Let_def e_def q_def y_def)
  then show ?thesis using y assms False by auto
qed

lemma float64_not_NaN [simp]: "float64 x \<noteq> NaN"
  by (simp add: float64_def Let_def)

lemma powi_mono2: "i \<le> j \<Longrightarrow> (2::real) powi i \<le> 2 powi j"
  by (rule power_int_increasing) simp_all

lemma powi_strict_mono2: "(2::real) powi i < 2 powi j \<Longrightarrow> i < j"
  by (rule ccontr) (use powi_mono2 [of j i] in simp)

lemma float64_exact:
  assumes "k \<noteq> 0" and "\<bar>k\<bar> < 2 ^ 53"
    and "2 powi emin \<le> \<bar>of_int k * 2 powi i :: real\<bar>"
    and "\<bar>of_int k * 2 powi i :: real\<bar> < 2 powi (emax + 1)"
  shows "float64 (of_int k * 2 powi i) = Fin (of_int k * 2 powi i)"
proof -
  define b where "b = \<lfloor>log 2 \<bar>real_of_int k\<bar>\<rfloor>"
  have k0: "0 < \<bar>real_of_int k\<bar>" using assms(1) by simp
  have "2 powr real_of_int b \<le> \<bar>real_of_int k\<bar> \<and> \<bar>real_of_int k\<bar> < 2 powr (real_of_int b + 1)"
    using floor_log_eq_powr_iff [of "\<bar>real_of_int k\<bar>" 2 b] k0 by (simp add: b_def)
  moreover have "2 powr real_of_int b = 2 powi b" by (simp add: powr_real_of_int')
  moreover have "2 powr real_of_int (b + 1) = 2 powi (b + 1)" by (rule powr_real_of_int') auto
  ultimately have b: "2 powi b \<le> \<bar>real_of_int k\<bar>" "\<bar>real_of_int k\<bar> < 2 powi (b + 1)"
    by (simp_all add: add.commute)
  have "\<bar>real_of_int k\<bar> < 2 powi 53"
  proof -
    have "real_of_int \<bar>k\<bar> < real_of_int (2 ^ 53)" using assms(2) by (simp only: of_int_less_iff)
    then show ?thesis by simp
  qed
  then have "(2::real) powi b < 2 powi 53" using b(1) by linarith
  then have b52: "b \<le> 52" using powi_strict_mono2 [of b 53] by simp
  define x :: real where "x = of_int k * 2 powi i"
  have ax: "\<bar>x\<bar> = \<bar>real_of_int k\<bar> * 2 powi i" by (simp add: x_def abs_mult)
  have lo: "2 powi (b + i) \<le> \<bar>x\<bar>"
    unfolding ax using b(1) by (simp add: power_int_add)
  have hi: "\<bar>x\<bar> < 2 powi (b + i + 1)"
  proof -
    have "\<bar>real_of_int k\<bar> * 2 powi i < 2 powi (b + 1) * 2 powi i"
      using b(2) by (intro mult_strict_right_mono) simp_all
    also have "\<dots> = 2 powi (b + i + 1)" by (simp add: power_int_add)
    finally show ?thesis by (simp add: ax)
  qed
  have "(2::real) powi emin < 2 powi (b + i + 1)" using assms(3) hi by (simp add: x_def)
  then have e: "emin \<le> b + i" using powi_strict_mono2 [of emin "b + i + 1"] by simp
  define n where "n = k * 2 ^ nat (52 - b)"
  have p: "(2::real) powi (52 - b) = 2 ^ nat (52 - b)"
    using b52 by (simp add: power_int_def)
  have "x / 2 powi (b + i - 52) = of_int k * 2 powi (52 - b)"
    by (simp add: x_def power_int_diff power_int_add field_simps)
  also have "\<dots> = of_int n" by (simp add: n_def p)
  finally have r: "round_half_even (x / 2 powi (b + i - 52)) = n" by simp
  have v: "of_int n * 2 powi (b + i - 52) = x"
  proof -
    have "real_of_int n * 2 powi (b + i - 52)
        = real_of_int k * (2 powi (52 - b) * 2 powi (b + i - 52))"
      by (simp add: n_def p)
    also have "2 powi (52 - b) * 2 powi (b + i - 52) = (2::real) powi i"
      by (simp flip: power_int_add)
    finally show ?thesis by (simp add: x_def)
  qed
  have "float64 x = Fin (of_int n * 2 powi (b + i - 52))"
    using lo hi e r assms(4) by (intro float64_eval) (simp_all add: v x_def)
  then show ?thesis by (simp add: v) (simp add: x_def)
qed

lemma normal_range:
  assumes "2 powi (- 128) \<le> \<bar>x\<bar>" and "\<bar>x\<bar> < 2 powi 128"
  shows "2 powi emin \<le> \<bar>x::real\<bar>" and "\<bar>x\<bar> < 2 powi (emax + 1)"
proof -
  have "(2::real) powi emin \<le> 2 powi (- 128)" by (rule powi_mono2) (simp add: emin_def)
  then show "2 powi emin \<le> \<bar>x\<bar>" using assms(1) by linarith
  have "(2::real) powi 128 \<le> 2 powi (emax + 1)" by (rule powi_mono2) (simp add: emax_def)
  then show "\<bar>x\<bar> < 2 powi (emax + 1)" using assms(2) by linarith
qed

lemma float64_eval_mid:
  assumes "2 powi e \<le> \<bar>x\<bar>" and "\<bar>x\<bar> < 2 powi (e + 1)" and "- 128 \<le> e" and "e < 127"
    and "round_half_even (x / 2 powi (e - 52)) = n"
    and "\<bar>of_int n * 2 powi (e - 52)\<bar> < (2::real) powi 128"
  shows "float64 x = Fin (of_int n * 2 powi (e - 52))"
proof -
  have "(2::real) powi 128 \<le> 2 powi (emax + 1)" by (rule powi_mono2) (simp add: emax_def)
  then have "\<bar>of_int n * 2 powi (e - 52)\<bar> < (2::real) powi (emax + 1)"
    using assms(6) by linarith
  moreover have "emin \<le> e" using assms(3) by (simp add: emin_def)
  ultimately show ?thesis using assms(1,2,5) by (intro float64_eval)
qed

lemma float64_exact_mid:
  assumes "k \<noteq> 0" and "\<bar>k\<bar> < 2 ^ 53"
    and "2 powi (- 128) \<le> \<bar>of_int k * 2 powi i :: real\<bar>"
    and "\<bar>of_int k * 2 powi i :: real\<bar> < 2 powi 128"
  shows "float64 (of_int k * 2 powi i) = Fin (of_int k * 2 powi i)"
  using assms(1,2) normal_range [OF assms(3,4)] by (rule float64_exact)

lemma float64_nonneg_fle: "0 \<le> x \<Longrightarrow> fle (Fin 0) (float64 x)"
  using float64_nonneg [of x] by auto

lemma round_half_even_ge: "\<lfloor>x\<rfloor> \<le> round_half_even x"
  by (simp add: round_half_even_def Let_def)

lemma float64_overflow:
  assumes "2 powi (emax + 1) \<le> x"
  shows "float64 x = PInf"
proof -
  have x: "0 < x" using assms powi_pos [of "emax + 1"] by linarith
  define b where "b = \<lfloor>log 2 \<bar>x\<bar>\<rfloor>"
  have "2 powr real_of_int b \<le> \<bar>x\<bar> \<and> \<bar>x\<bar> < 2 powr (real_of_int b + 1)"
    using floor_log_eq_powr_iff [of "\<bar>x\<bar>" 2 b] x by (simp add: b_def)
  moreover have "2 powr real_of_int b = 2 powi b" by (simp add: powr_real_of_int')
  moreover have "2 powr real_of_int (b + 1) = 2 powi (b + 1)" by (rule powr_real_of_int') auto
  ultimately have b: "2 powi b \<le> x" "x < 2 powi (b + 1)"
    using x by (simp_all add: add.commute)
  have "(2::real) powi (emax + 1) < 2 powi (b + 1)" using assms b(2) by linarith
  then have e: "emax + 1 \<le> b" using powi_strict_mono2 [of "emax + 1" "b + 1"] by simp
  then have m: "max b emin = b" by (simp add: emin_def emax_def)
  define q :: real where "q = 2 powi (b - 52)"
  have q: "0 < q" by (simp add: q_def)
  have "2 powi b / q = (2::real) powi 52" by (simp add: q_def power_int_diff)
  moreover have "2 powi b / q \<le> x / q" using b(1) q by (intro divide_right_mono) simp_all
  ultimately have "(2::real) powi 52 \<le> x / q" by linarith
  then have "real_of_int (2 ^ 52) \<le> x / q" by simp
  then have "2 ^ 52 \<le> \<lfloor>x / q\<rfloor>" by (simp only: le_floor_iff)
  then have "2 ^ 52 \<le> round_half_even (x / q)" using round_half_even_ge [of "x / q"] by linarith
  then have "real_of_int (2 ^ 52) \<le> real_of_int (round_half_even (x / q))"
    by (simp only: of_int_le_iff)
  then have "real_of_int (2 ^ 52) * q \<le> real_of_int (round_half_even (x / q)) * q"
    using q by (simp only: mult_le_cancel_right_pos)
  moreover have "real_of_int (2 ^ 52) * q = 2 powi b"
    by (simp add: q_def power_int_diff)
  ultimately have "2 powi b \<le> real_of_int (round_half_even (x / q)) * q" by simp
  moreover have "(2::real) powi (emax + 1) \<le> 2 powi b" using e by (rule powi_mono2)
  ultimately have y: "2 powi (emax + 1) \<le> real_of_int (round_half_even (x / q)) * q"
    by linarith
  then have "2 powi (emax + 1) \<le> \<bar>real_of_int (round_half_even (x / q)) * q\<bar>" by linarith
  then show ?thesis
    using x unfolding float64_def Let_def b_def [symmetric] m q_def [symmetric] by simp
qed

lemma float64_powi:
  assumes "emin \<le> i" and "i \<le> emax"
  shows "float64 (2 powi i) = Fin (2 powi i)"
proof -
  have "(2::real) powi emin \<le> 2 powi i" using assms(1) by (rule powi_mono2)
  moreover have "(2::real) powi i < 2 powi (emax + 1)"
    using assms(2) by (intro power_int_strict_increasing) simp_all
  ultimately show ?thesis using float64_exact [of 1 i] by simp
qed

section \<open>The reductions on finite numbers\<close>

lemma fmin2_Fin [simp]: "fmin2 (Fin a) (Fin b) = Fin (min a b)"
  by (simp add: fmin2_def min_def)

lemma fmax2_Fin [simp]: "fmax2 (Fin a) (Fin b) = Fin (max a b)"
  by (simp add: fmax2_def max_def)

lemma fsub_Fin [simp]: "fsub rnd (Fin a) (Fin b) = rnd (a - b)"
  by (simp add: fsub_def)

lemma fold_fmin2_Fin: "fold (\<lambda>x acc. fmin2 acc x) (map Fin xs) (Fin a) = Fin (fold min xs a)"
  by (induction xs arbitrary: a) (simp_all add: min.commute)

lemma fold_fmax2_Fin: "fold (\<lambda>x acc. fmax2 acc x) (map Fin xs) (Fin a) = Fin (fold max xs a)"
  by (induction xs arbitrary: a) (simp_all add: max.commute)

lemma np_amin_Fin:
  assumes "xs \<noteq> []"
  shows "np_amin (map Fin xs) = Fin (Min (set xs))"
proof -
  obtain a ys where xs: "xs = a # ys" using assms by (cases xs) auto
  have "np_amin (map Fin (a # ys)) = Fin (fold min ys a)"
    by (simp add: np_amin_def fold_fmin2_Fin)
  also have "\<dots> = Fin (Min (set (a # ys)))"
    by (simp only: Min.set_eq_fold)
  finally show ?thesis by (simp only: xs)
qed

lemma np_amax_Fin:
  assumes "xs \<noteq> []"
  shows "np_amax (map Fin xs) = Fin (Max (set xs))"
proof -
  obtain a ys where xs: "xs = a # ys" using assms by (cases xs) auto
  have "np_amax (map Fin (a # ys)) = Fin (fold max ys a)"
    by (simp add: np_amax_def fold_fmax2_Fin)
  also have "\<dots> = Fin (Max (set (a # ys)))"
    by (simp only: Max.set_eq_fold)
  finally show ?thesis by (simp only: xs)
qed

section \<open>The reductions in exact arithmetic\<close>







section \<open>Division by a zero time difference\<close>

lemma fadd_not_finite: "\<not> isfinite a \<or> \<not> isfinite b \<Longrightarrow> \<not> isfinite (fadd rnd a b)"
  by (cases a; cases b) simp_all

lemma fold_fadd_not_finite_acc:
  "\<not> isfinite a \<Longrightarrow> \<not> isfinite (fold (\<lambda>v acc. fadd rnd acc v) xs a)"
  by (induction xs arbitrary: a) (simp_all add: fadd_not_finite)

lemma fold_fadd_not_finite:
  "x \<in> set xs \<Longrightarrow> \<not> isfinite x \<Longrightarrow> \<not> isfinite (fold (\<lambda>v acc. fadd rnd acc v) xs a)"
proof (induction xs arbitrary: a)
  case Nil
  then show ?case by simp
next
  case (Cons y ys)
  show ?case
  proof (cases "x = y")
    case True
    then have "\<not> isfinite (fadd rnd a y)" using Cons.prems by (simp add: fadd_not_finite)
    then show ?thesis by (simp add: fold_fadd_not_finite_acc)
  next
    case False
    then show ?thesis using Cons by simp
  qed
qed

lemma fsum_not_finite: "x \<in> set xs \<Longrightarrow> \<not> isfinite x \<Longrightarrow> \<not> isfinite (fsum rnd xs)"
proof (cases xs)
  case Nil
  assume "x \<in> set xs"
  then show ?thesis using Nil by simp
next
  case (Cons y ys)
  assume x: "x \<in> set xs" "\<not> isfinite x"
  show ?thesis
  proof (cases "x = y")
    case True
    then show ?thesis using x Cons by (simp add: fsum_def fold_fadd_not_finite_acc)
  next
    case False
    then have "x \<in> set ys" using x Cons by simp
    then show ?thesis using x Cons by (simp add: fsum_def fold_fadd_not_finite)
  qed
qed

lemma np_mean_not_finite: "x \<in> set xs \<Longrightarrow> \<not> isfinite x \<Longrightarrow> \<not> isfinite (np_mean rnd xs)"
  using fsum_not_finite [of x xs rnd]
  by (cases "fsum rnd xs") (simp_all add: np_mean_def)

lemma fdiv_zero_not_finite: "\<not> isfinite (fdiv rnd a (Fin 0))"
  by (cases a) simp_all

lemma rates_zero_step:
  assumes "shape m n c" and "0 < c" and "j < c" and "Suc k < n" and "m ! Suc k ! 0 = m ! k ! 0"
    and "rnd 0 = Fin 0"
  shows "\<exists>x \<in> set (rates rnd (map (map Fin) m) j). \<not> isfinite x"
proof -
  have n: "length m = n" using assms by (simp add: shape_def)
  have k: "k < n - 1" "k < n" using assms(4) by simp_all
  have l: "length (m ! Suc k) = c" "length (m ! k) = c"
    using assms(1,4) k by (simp_all add: shape_nth)
  have "rates rnd (map (map Fin) m) j ! k
      = fdiv rnd (rnd (m ! Suc k ! j - m ! k ! j)) (Fin 0)"
    using k l n assms by (simp add: rates_def)
  then have "\<not> isfinite (rates rnd (map (map Fin) m) j ! k)"
    by (simp only: fdiv_zero_not_finite not_False_eq_True)
  moreover have "rates rnd (map (map Fin) m) j ! k \<in> set (rates rnd (map (map Fin) m) j)"
    using k n by (intro nth_mem) (simp add: rates_def)
  ultimately show ?thesis by blast
qed

lemma rate_mean_not_finite:
  assumes "shape m n c" and "6 \<le> c"
    and "Suc k < n" and "m ! Suc k ! 0 = m ! k ! 0" and "j < 5" and "rnd 0 = Fin 0"
  shows "\<not> isfinite (feat (feature_vector rnd (map (map Fin) m)) j 8)"
proof -
  have c: "0 < c" "j + 1 < c" using assms by simp_all
  obtain x where x: "x \<in> set (rates rnd (map (map Fin) m) (j + 1))" "\<not> isfinite x"
    using rates_zero_step [where rnd = rnd, OF assms(1) c assms(3,4,6)] by blast
  have "feat (feature_vector rnd (map (map Fin) m)) j 8
      = np_mean rnd (rates rnd (map (map Fin) m) (j + 1))"
    using assms(5) by (simp add: feat_feature_vector element_features_def Let_def)
  then show ?thesis
    using np_mean_not_finite [OF x] by simp
qed

section \<open>The file adapter\<close>

lemma py_index_nat: "k < length xs \<Longrightarrow> py_index xs (int k) = Inr (xs ! k)"
  by (simp add: py_index_def)

lemma take_column_nat:
  assumes "shape m n c" and "0 < n" and "k < c"
  shows "take_column m (int k) = Inr (column m k)"
  using assms py_index_nat [of k "[0..<c]"] by (simp add: take_column_def shape_hd)

lemma append_columns_nat:
  assumes "shape data_t n c" and "0 < n" and "length data = n"
    and "\<forall>i \<in> set is. i < length co \<and> co ! i < c"
  shows "append_columns data_t (map int co) (map int is) data
       = Inr (map2 (\<lambda>r row. r @ map (\<lambda>i. row ! (co ! i)) is) data data_t)"
  using assms(3,4)
proof (induction "is" arbitrary: data)
  case Nil
  have "length data_t = n" using assms(1) by (simp add: shape_def)
  then have "map2 (\<lambda>r row. r) data data_t = data"
    using Nil(1) by (intro nth_equalityI) simp_all
  then show ?case by simp
next
  case (Cons i "is")
  have n: "length data_t = n" using assms(1) by (simp add: shape_def)
  have i: "i < length co" "co ! i < c" using Cons.prems(2) by simp_all
  define data1 where "data1 = map2 (\<lambda>r x. r @ [x]) data (column data_t (co ! i))"
  have l1: "length data1 = n" using Cons.prems(1) n by (simp add: data1_def)
  have step: "append_columns data_t (map int co) (map int (i # is)) data
      = append_columns data_t (map int co) (map int is) data1"
    using i py_index_nat [of i "map int co"] take_column_nat [OF assms(1,2) i(2)]
    by (simp add: data1_def)
  have "map2 (\<lambda>r row. r @ map (\<lambda>i. row ! (co ! i)) is) data1 data_t
      = map2 (\<lambda>r row. r @ map (\<lambda>i. row ! (co ! i)) (i # is)) data data_t"
    using Cons.prems(1) n l1
    by (intro nth_equalityI) (simp_all add: data1_def column_def)
  then show ?case
    using Cons.IH [OF l1] Cons.prems(2) step by simp
qed

lemma append_columns_bad_index:
  assumes "shape data_t n c" and "0 < n" and "length data = n"
    and "\<forall>i \<in> set is. i < length co \<and> co ! i < c" and "int (length co) \<le> b"
  shows "append_columns data_t (map int co) (map int is @ b # rest) data = Inl IndexError"
  using assms(3,4)
proof (induction "is" arbitrary: data)
  case Nil
  then show ?case using assms(5) by (simp add: py_index_def)
next
  case (Cons i "is")
  have i: "i < length co" "co ! i < c" using Cons.prems(2) by simp_all
  have n: "length data_t = n" using assms(1) by (simp add: shape_def)
  define data1 where "data1 = map2 (\<lambda>r x. r @ [x]) data (column data_t (co ! i))"
  have l1: "length data1 = n" using Cons.prems(1) n by (simp add: data1_def)
  have step: "append_columns data_t (map int co) (map int (i # is) @ b # rest) data
      = append_columns data_t (map int co) (map int is @ b # rest) data1"
    using i py_index_nat [of i "map int co"] take_column_nat [OF assms(1,2) i(2)]
    by (simp add: data1_def)
  show ?case using Cons.IH [OF l1] Cons.prems(2) step by simp
qed

lemma compute_from_file_data_nat:
  assumes "shape table n c" and "2 \<le> n" and "2 \<le> c"
    and "\<forall>i \<in> set co. i < length co \<and> co ! i < c" and "co \<noteq> []" and "hd co < c"
  shows "compute_from_file_data table (map int co)
       = Inr (map (\<lambda>row. row ! hd co # map (\<lambda>i. row ! (co ! i)) (tl co)) (take 101 table))"
proof -
  have n: "length table = n" using assms(1) by (simp add: shape_def)
  have h: "length (hd table) = c" using assms(1,2) by (simp add: shape_hd)
  define m where "m = min n 101"
  have st: "shape (take 101 table) m c"
    using assms(1) by (auto simp add: shape_def list_all_iff m_def dest: in_set_takeD)
  have m0: "0 < m" using assms(2) by (simp add: m_def)
  have i0: "py_index (map int co) 0 = Inr (int (hd co))"
    using assms(5) py_index_nat [of 0 "map int co"] by (simp add: hd_conv_nth)
  have c0: "take_column (take 101 table) (int (hd co)) = Inr (column (take 101 table) (hd co))"
    using st m0 assms(6) by (rule take_column_nat)
  have l: "length (map (\<lambda>x. [x]) (column (take 101 table) (hd co))) = m"
    using n by (simp add: m_def min.commute)
  have t: "\<forall>i \<in> set (tl co). i < length co \<and> co ! i < c"
    using assms(4,5) by (auto dest: list.set_sel(2))
  have "append_columns (take 101 table) (map int co) (map int (tl co))
          (map (\<lambda>x. [x]) (column (take 101 table) (hd co)))
      = Inr (map2 (\<lambda>r row. r @ map (\<lambda>i. row ! (co ! i)) (tl co))
               (map (\<lambda>x. [x]) (column (take 101 table) (hd co))) (take 101 table))"
    using st m0 l t by (rule append_columns_nat)
  also have "map2 (\<lambda>r row. r @ map (\<lambda>i. row ! (co ! i)) (tl co))
               (map (\<lambda>x. [x]) (column (take 101 table) (hd co))) (take 101 table)
      = map (\<lambda>row. row ! hd co # map (\<lambda>i. row ! (co ! i)) (tl co)) (take 101 table)"
    by (intro nth_equalityI) (simp_all add: column_def)
  finally show ?thesis
    using n h assms(2,3) i0 c0
    by (simp add: compute_from_file_data_def Let_def map_tl)
qed

lemma column_take6:
  assumes "shape m n c" and "6 \<le> c" and "j < 6"
  shows "column (map (take 6) m) j = column m j"
  using assms by (simp add: column_def)

lemma rates_take6:
  assumes "shape m n c" and "6 \<le> c" and "j < 6"
  shows "rates rnd (map (take 6) m) j = rates rnd m j"
proof -
  have n: "length m = n" using assms by (simp add: shape_def)
  show ?thesis
    unfolding rates_def using assms(3) n
    by (intro map_cong) (auto simp add: n)
qed

lemma feature_vector_take6:
  assumes "shape m n c" and "6 \<le> c"
  shows "feature_vector rnd (map (take 6) m) = feature_vector rnd m"
  using assms
  by (simp add: feature_vector_def element_features_def column_take6 rates_take6)

lemma explicit_take6:
  assumes "shape m n c" and "6 \<le> c"
  shows "map (\<lambda>row. [row ! 0, row ! 1, row ! 2, row ! 3, row ! 4, row ! 5]) m = map (take 6) m"
proof (rule map_cong [OF refl])
  fix row assume "row \<in> set m"
  then have l: "length row = c" using assms(1) by (rule shape_row [rotated])
  show "[row ! 0, row ! 1, row ! 2, row ! 3, row ! 4, row ! 5] = take 6 row"
    using l assms(2) by (intro nth_equalityI) (auto simp add: nth_Cons' less_Suc_eq eval_nat_numeral)
qed

lemma compute_from_file_data_default:
  assumes "shape table n c" and "2 \<le> n" and "6 \<le> c"
  shows "compute_from_file_data table default_col_order = Inr (map (take 6) (take 101 table))"
proof -
  have d: "default_col_order = map int [0, 1, 2, 3, 4, 5]" by (simp add: default_col_order_def)
  have "compute_from_file_data table (map int [0, 1, 2, 3, 4, 5])
      = Inr (map (\<lambda>row. row ! hd [0, 1, 2, 3, 4, 5 :: nat]
               # map (\<lambda>i. row ! ([0, 1, 2, 3, 4, 5] ! i)) (tl [0, 1, 2, 3, 4, 5])) (take 101 table))"
    using assms(3) by (intro compute_from_file_data_nat [OF assms(1,2)]) auto
  then have "compute_from_file_data table default_col_order
      = Inr (map (\<lambda>row. [row ! 0, row ! 1, row ! 2, row ! 3, row ! 4, row ! 5]) (take 101 table))"
    unfolding d by simp
  then show ?thesis
    using explicit_take6 [OF shape_take [OF assms(1)] assms(3)] by simp
qed

lemma compute_from_file_default:
  assumes "shape table n c" and "2 \<le> n" and "6 \<le> c"
  shows "compute_from_file rnd table default_col_order = Inr [feature_vector rnd (take 101 table)]"
proof -
  have s: "shape (take 101 table) (min n 101) c" using assms(1) by (rule shape_take)
  have s6: "shape (map (take 6) (take 101 table)) (min n 101) 6"
    using s assms(3) by (simp add: shape_def list_all_iff)
  have "parse rnd (map (take 6) (take 101 table)) = Inr [feature_vector rnd (map (take 6) (take 101 table))]"
    using assms(2) by (intro parse_features [OF s6]) simp_all
  then show ?thesis
    using compute_from_file_data_default [OF assms] feature_vector_take6 [OF s assms(3)]
    by (simp add: compute_from_file_def)
qed

section \<open>The simulation loop at the example integrator\<close>

lemma degrees_node: "degrees (Fin (- (1 / 2 ^ 60))) = Fin (- (1007958012753983 / 2 ^ 104))"
  using float64_exact_mid [of "- 1007958012753983" "- 104"]
  by (simp add: degrees_def)

lemma degrees_inclination: "degrees (Fin (1 / 8)) = Fin (1007958012753983 / 2 ^ 47)"
  using float64_exact_mid [of 1007958012753983 "- 47"]
  by (simp add: degrees_def)

lemma degrees_zero: "degrees (Fin 0) = Fin 0"
  by (simp add: degrees_def)

lemma float64_360: "float64 (360 - 1007958012753983 / 2 ^ 104) = Fin 360"
  using float64_eval_mid [of 8 "360 - 1007958012753983 / 2 ^ 104" "360 * 2 ^ 44"]
  by (simp add: round_half_even_def)

lemma float64_350: "float64 350 = Fin 350"
  using float64_exact_mid [of 350 0] by simp

lemma py_mod_node: "py_mod (Fin (- (1007958012753983 / 2 ^ 104))) 360 = Fin 360"
proof -
  have "\<lceil>- (1007958012753983 / 2 ^ 104) / (360::real)\<rceil> = 0"
    by (rule ceiling_unique) simp_all
  then have "fmod (- (1007958012753983 / 2 ^ 104)) 360 = - (1007958012753983 / 2 ^ 104)"
    by (simp add: fmod_def)
  then show ?thesis using float64_360 by simp
qed

lemma py_mod_zero: "py_mod (Fin 0) 360 = Fin 0"
  by (simp add: fmod_def)

lemma py_mod_370: "py_mod (Fin 370) 360 = Fin 10"
proof -
  have "\<lfloor>370 / (360::real)\<rfloor> = 1" by simp
  then have "fmod 370 360 = 10" by (simp add: fmod_def)
  then show ?thesis by simp
qed

lemma py_mod_minus_10: "py_mod (Fin (- 10)) 360 = Fin 350"
proof -
  have "\<lceil>- 10 / (360::real)\<rceil> = 0" by (rule ceiling_unique) simp_all
  then have "fmod (- 10) 360 = - 10" by (simp add: fmod_def)
  then show ?thesis using float64_350 by simp
qed

lemma orbit_step_example: "orbit_step t example_orbit = example_row t"
  by (simp only: orbit_step_def example_orbit_def example_row_def orbit.select_convs
      degrees_node degrees_inclination degrees_zero py_mod_node py_mod_zero)

lemma orbit_line_example: "orbit_line i t example_orbit = Values i (example_row t @ [Fin 0])"
  by (simp only: orbit_line_def example_orbit_def example_row_def orbit.select_convs
      degrees_node degrees_inclination degrees_zero py_mod_node py_mod_zero append.simps)

lemma orbits_example:
  "py_index (calculate_orbits example_rebound s) (- 1) = Inr example_orbit"
  "py_index (calculate_orbits example_rebound s) (- 2) = Inr example_orbit"
  by (simp_all add: example_rebound_def py_index_def)

lemma run_steps_example_rows:
  "run_steps example_rebound False ts () data lines = Inr ((), data @ map example_row ts, lines)"
  by (induction ts arbitrary: data)
    (simp_all add: orbits_example Let_def orbit_step_example)

lemma run_steps_example_trace:
  "run_steps example_rebound True ts () data lines =
     Inr ((), data @ map example_row ts, lines @ concat (map example_lines ts))"
  by (induction ts arbitrary: data lines)
    (simp_all add: orbits_example Let_def orbit_step_example orbit_line_example
      example_lines_def)

lemma run_simulation_example:
  "run_simulation example_rebound () savename =
     Inr ((), map example_row time_outs,
          if savename \<noteq> []
          then Some (Text ''id, t, a, e, i, Omega, omega, M'' # concat (map example_lines time_outs))
          else None)"
  by (simp add: run_simulation_def run_steps_example_rows run_steps_example_trace Let_def)

lemma example_row_fun:
  "example_row =
     (\<lambda>t. [Fin t, Fin 40, Fin (1 / 4), Fin (1007958012753983 / 2 ^ 47), Fin 360, Fin 0])"
  by (rule ext) (simp only: example_row_def)

lemma example_lines_fun:
  "example_lines =
     (\<lambda>t. [Values (- 1)
              [Fin t, Fin 40, Fin (1 / 4), Fin (1007958012753983 / 2 ^ 47), Fin 360, Fin 0,
               Fin 0],
            Values 0
              [Fin t, Fin 40, Fin (1 / 4), Fin (1007958012753983 / 2 ^ 47), Fin 360, Fin 0,
               Fin 0]])"
  by (rule ext) (simp only: example_lines_def example_row_def append.simps)

section \<open>Facts about the example inputs\<close>

lemma shape_example: "shape example_sample 101 6"
  by (simp add: shape_def example_sample_def list_all_iff)

lemma shape_degenerate: "shape degenerate_sample 101 6"
  by (simp add: shape_def degenerate_sample_def list_all_iff)

lemma degenerate_step: "degenerate_sample ! Suc 0 ! 0 = degenerate_sample ! 0 ! 0"
  by (simp add: degenerate_sample_def)

lemma shape_short: "shape short_sample 2 6"
  by (simp add: shape_def short_sample_def)

lemma shape_table_50: "shape table_50 50 6"
  by (simp add: shape_def table_50_def list_all_iff)

lemma shape_table_150: "shape table_150 150 6"
  by (simp add: shape_def table_150_def list_all_iff)

lemma shape_example_table: "shape example_table 101 6"
  unfolding example_table_def using shape_example by (rule shape_Fin)

lemma shape_wide_table: "shape wide_table 101 8"
  by (simp add: shape_def wide_table_def list_all_iff)

lemma compute_from_file_data_wide:
  "compute_from_file_data wide_table [0, 1, 2, 3, 4, 7] = Inl IndexError"
proof -
  have n: "length wide_table = 101" and h: "length (hd wide_table) = 8"
    using shape_wide_table by (simp_all add: shape_def shape_hd [OF shape_wide_table])
  have t: "take 101 wide_table = wide_table" using n by simp
  have c0: "take_column wide_table (int 0) = Inr (column wide_table 0)"
    using shape_wide_table by (rule take_column_nat) simp_all
  have "append_columns wide_table (map int [0, 1, 2, 3, 4, 7]) (map int [1, 2, 3, 4] @ 7 # [])
          (map (\<lambda>x. [x]) (column wide_table 0)) = Inl IndexError"
    using shape_wide_table by (rule append_columns_bad_index) (auto simp add: n)
  then show ?thesis
    using n h t c0 by (simp add: compute_from_file_data_def Let_def py_index_def)
qed

section \<open>Sums of equal doubles\<close>

lemma fold_fadd_replicate:
  assumes "0 < K" and "0 < m" and "(int m + int n) * K < 2 ^ 53"
    and "2 powi (- 128) \<le> of_int K * (2::real) powi i"
    and "of_int ((int m + int n) * K) * (2::real) powi i < 2 powi 128"
  shows "fold (\<lambda>v acc. fadd float64 acc v) (replicate n (Fin (of_int K * 2 powi i)))
           (Fin (of_int (int m * K) * 2 powi i))
         = Fin (of_int ((int m + int n) * K) * 2 powi i)"
  using assms
proof (induction n arbitrary: m)
  case 0
  then show ?case by simp
next
  case (Suc n)
  define k where "k = (int m + 1) * K"
  have p: "0 < (2::real) powi i" by simp
  have k0: "0 < k" using Suc.prems(1) by (simp add: k_def)
  have kle: "k \<le> (int m + int (Suc n)) * K"
    using Suc.prems(1) by (simp add: k_def mult_right_mono)
  have kK: "K \<le> k" using Suc.prems(1) by (simp add: k_def algebra_simps)
  have k53: "\<bar>k\<bar> < 2 ^ 53" using k0 kle Suc.prems(3) by linarith
  have lo: "2 powi (- 128) \<le> \<bar>of_int k * 2 powi i :: real\<bar>"
  proof -
    have "of_int K * (2::real) powi i \<le> of_int k * 2 powi i"
      using kK p by (simp add: mult_right_mono)
    moreover have "0 \<le> of_int k * (2::real) powi i" using k0 by simp
    ultimately show ?thesis using Suc.prems(4) by linarith
  qed
  have hi: "\<bar>of_int k * 2 powi i :: real\<bar> < 2 powi 128"
  proof -
    have "of_int k * (2::real) powi i \<le> of_int ((int m + int (Suc n)) * K) * 2 powi i"
    proof (rule mult_right_mono)
      show "real_of_int k \<le> real_of_int ((int m + int (Suc n)) * K)"
        using kle by (simp only: of_int_le_iff)
      show "0 \<le> (2::real) powi i" by simp
    qed
    moreover have "0 \<le> of_int k * (2::real) powi i" using k0 by simp
    ultimately show ?thesis using Suc.prems(5) by linarith
  qed
  have e: "float64 (of_int k * 2 powi i) = Fin (of_int k * 2 powi i)"
    using k0 k53 lo hi by (intro float64_exact_mid) simp_all
  have s: "real_of_int (int m * K) * 2 powi i + real_of_int K * 2 powi i
      = of_int k * 2 powi i"
    by (simp add: k_def algebra_simps)
  have k': "k = int (Suc m) * K" by (simp add: k_def)
  have step: "fadd float64 (Fin (of_int (int m * K) * 2 powi i)) (Fin (of_int K * 2 powi i))
      = Fin (of_int (int (Suc m) * K) * 2 powi i)"
    unfolding fadd.simps s e by (simp only: k')
  have ih: "fold (\<lambda>v acc. fadd float64 acc v) (replicate n (Fin (of_int K * 2 powi i)))
           (Fin (of_int (int (Suc m) * K) * 2 powi i))
         = Fin (of_int ((int (Suc m) + int n) * K) * 2 powi i)"
    using Suc.prems by (intro Suc.IH) (simp_all add: algebra_simps)
  have c: "int (Suc m) + int n = int m + int (Suc n)" by simp
  show ?case
    unfolding replicate_Suc fold_Cons comp_apply step ih c ..
qed

section \<open>The statistics of the constant column of the example trajectory\<close>

lemma replicate_ends: "replicate (Suc (Suc n)) x = x # replicate n x @ [x]"
  by (simp add: replicate_append_same)

lemma fsum_ends:
  "fsum rnd (replicate (Suc (Suc n)) x)
     = fadd rnd (fold (\<lambda>v acc. fadd rnd acc v) (replicate n x) x) x"
  by (simp only: replicate_ends fsum_def list.case fold_append fold_Cons fold_Nil comp_apply id_apply)

lemma sum_100_example:
  "fold (\<lambda>v acc. fadd float64 acc v) (replicate 99 (Fin (90071992547409 / 2 ^ 47)))
     (Fin (90071992547409 / 2 ^ 47)) = Fin (9007199254740900 / 2 ^ 47)"
  using fold_fadd_replicate [of 90071992547409 1 99 "- 47"] by simp

lemma sum_101_example:
  "fadd float64 (Fin (9007199254740900 / 2 ^ 47)) (Fin (90071992547409 / 2 ^ 47))
     = Fin (9097271247288308 / 2 ^ 47)"
  using float64_eval_mid
    [of 6 "9007199254740900 / 2 ^ 47 + 90071992547409 / 2 ^ 47" 4548635623644154]
  by (simp add: round_half_even_def)

lemma fsum_example:
  "fsum float64 (replicate 101 (Fin (90071992547409 / 2 ^ 47))) = Fin (9097271247288308 / 2 ^ 47)"
proof -
  have "(101::nat) = Suc (Suc 99)" by simp
  then show ?thesis
    by (simp only: fsum_ends sum_100_example sum_101_example)
qed

lemma quotient_101_example:
  "float64 (9097271247288308 / 2 ^ 47 / 101) = Fin (5764607523034175 / 2 ^ 53)"
  using float64_eval_mid [of "- 1" "9097271247288308 / 2 ^ 47 / 101" 5764607523034175]
  by (simp add: round_half_even_def)

lemma fdiv_Fin: "y \<noteq> 0 \<Longrightarrow> fdiv rnd (Fin x) (Fin y) = rnd (x / y)"
  by simp

lemma np_mean_example:
  "np_mean float64 (replicate 101 (Fin (90071992547409 / 2 ^ 47)))
     = Fin (5764607523034175 / 2 ^ 53)"
proof -
  have "np_mean float64 (replicate 101 (Fin (90071992547409 / 2 ^ 47)))
      = fdiv float64 (Fin (9097271247288308 / 2 ^ 47)) (Fin 101)"
    by (simp only: np_mean_def fsum_example length_replicate of_nat_numeral)
  also have "\<dots> = float64 (9097271247288308 / 2 ^ 47 / 101)"
    by (rule fdiv_Fin) simp
  also have "\<dots> = Fin (5764607523034175 / 2 ^ 53)"
    by (rule quotient_101_example)
  finally show ?thesis .
qed

lemma deviation_example:
  "fsub float64 (Fin (90071992547409 / 2 ^ 47)) (Fin (5764607523034175 / 2 ^ 53))
     = Fin (1 / 2 ^ 53)"
  using float64_exact_mid [of 1 "- 53"] by simp

lemma square_example: "fmul float64 (Fin (1 / 2 ^ 53)) (Fin (1 / 2 ^ 53)) = Fin (1 / 2 ^ 106)"
  using float64_exact_mid [of 1 "- 106"] by simp

lemma fsum_squares_example: "fsum float64 (replicate 101 (Fin (1 / 2 ^ 106))) = Fin (101 / 2 ^ 106)"
proof -
  have "(101::nat) = Suc 100" by simp
  then have "fsum float64 (replicate 101 (Fin (1 / 2 ^ 106)))
      = fold (\<lambda>v acc. fadd float64 acc v) (replicate 100 (Fin (1 / 2 ^ 106))) (Fin (1 / 2 ^ 106))"
    by (simp only: replicate_Suc fsum_def list.case)
  also have "\<dots> = Fin (101 / 2 ^ 106)"
    using fold_fadd_replicate [of 1 1 100 "- 106"] by simp
  finally show ?thesis .
qed

lemma mean_squares_example: "fdiv float64 (Fin (101 / 2 ^ 106)) (Fin 101) = Fin (1 / 2 ^ 106)"
  using float64_exact_mid [of 1 "- 106"] by simp

lemma fsqrt_Fin: "0 \<le> x \<Longrightarrow> fsqrt rnd (Fin x) = rnd (sqrt x)"
  by simp

lemma sqrt_example: "fsqrt float64 (Fin (1 / 2 ^ 106)) = Fin (1 / 2 ^ 53)"
proof -
  have s: "sqrt (1 / 2 ^ 106) = (1 / 2 ^ 53 :: real)"
    by (rule real_sqrt_unique) (simp_all add: power2_eq_square)
  have e: "float64 (1 / 2 ^ 53) = Fin (1 / 2 ^ 53)"
    using float64_exact_mid [of 1 "- 53"] by simp
  have "fsqrt float64 (Fin (1 / 2 ^ 106)) = float64 (sqrt (1 / 2 ^ 106))"
    by (rule fsqrt_Fin) simp
  then show ?thesis by (simp only: s e)
qed

lemma np_std_example:
  "np_std float64 (replicate 101 (Fin (90071992547409 / 2 ^ 47))) = Fin (1 / 2 ^ 53)"
proof -
  have "np_std float64 (replicate 101 (Fin (90071992547409 / 2 ^ 47)))
      = fsqrt float64 (np_mean float64 (replicate 101 (Fin (1 / 2 ^ 106))))"
    by (simp only: np_std_def Let_def np_mean_example map_replicate deviation_example
        square_example)
  also have "\<dots> = fsqrt float64 (fdiv float64 (Fin (101 / 2 ^ 106)) (Fin 101))"
    by (simp only: np_mean_def fsum_squares_example length_replicate of_nat_numeral)
  also have "\<dots> = Fin (1 / 2 ^ 53)"
    by (simp only: mean_squares_example sqrt_example)
  finally show ?thesis .
qed

section \<open>The entries of the feature vector\<close>

lemma feat_components:
  assumes "j < 5"
  shows "feat (feature_vector rnd data) j 0 = hd (column data (j + 1))"
    and "feat (feature_vector rnd data) j 1 = last (column data (j + 1))"
    and "feat (feature_vector rnd data) j 2 = np_amin (column data (j + 1))"
    and "feat (feature_vector rnd data) j 3 = np_mean rnd (column data (j + 1))"
    and "feat (feature_vector rnd data) j 4 = np_amax (column data (j + 1))"
    and "feat (feature_vector rnd data) j 5 = np_std rnd (column data (j + 1))"
    and "feat (feature_vector rnd data) j 6
          = fsub rnd (np_amax (column data (j + 1))) (np_amin (column data (j + 1)))"
    and "feat (feature_vector rnd data) j 7 = np_amin (rates rnd data (j + 1))"
    and "feat (feature_vector rnd data) j 8 = np_mean rnd (rates rnd data (j + 1))"
    and "feat (feature_vector rnd data) j 9 = np_amax (rates rnd data (j + 1))"
    and "feat (feature_vector rnd data) j 10
          = fsub rnd (np_amax (rates rnd data (j + 1))) (np_amin (rates rnd data (j + 1)))"
  using assms by (simp_all add: feat_feature_vector element_features_def Let_def)

section \<open>A constant column\<close>

lemma fold_fmin2_replicate: "fold (\<lambda>x acc. fmin2 acc x) (replicate n (Fin v)) (Fin v) = Fin v"
  by (induction n) simp_all

lemma fold_fmax2_replicate: "fold (\<lambda>x acc. fmax2 acc x) (replicate n (Fin v)) (Fin v) = Fin v"
  by (induction n) simp_all

lemma np_amin_replicate: "0 < n \<Longrightarrow> np_amin (replicate n (Fin v)) = Fin v"
  by (cases n) (simp_all add: np_amin_def fold_fmin2_replicate del: fold_replicate)

lemma np_amax_replicate: "0 < n \<Longrightarrow> np_amax (replicate n (Fin v)) = Fin v"
  by (cases n) (simp_all add: np_amax_def fold_fmax2_replicate del: fold_replicate)

lemma fold_fadd_zero:
  "fold (\<lambda>v acc. fadd float64 acc v) (replicate n (Fin 0)) (Fin 0) = Fin 0"
  by (induction n) simp_all

lemma np_mean_zero: "0 < n \<Longrightarrow> np_mean float64 (replicate n (Fin 0)) = Fin 0"
  by (cases n) (simp_all add: np_mean_def fsum_def fold_fadd_zero del: fold_replicate)

lemma positive_Fin: "positive a \<Longrightarrow> \<exists>d>0. a = Fin d"
  by (cases a) simp_all

lemma constant_column_values:
  assumes "shape data n c" and "\<forall>r \<in> set data. r ! j = Fin v"
  shows "column data j = replicate n (Fin v)"
proof -
  have n: "length data = n" using assms by (simp add: shape_def)
  have "column data j = map (\<lambda>r. Fin v) data"
    unfolding column_def using assms(2) by (intro map_cong) auto
  then show ?thesis by (simp add: map_replicate_const n)
qed

lemma constant_column_rates:
  assumes "shape data n c" and "\<forall>r \<in> set data. r ! j = Fin v" and "time_steps_positive data"
  shows "rates float64 data j = replicate (n - 1) (Fin 0)"
proof -
  have n: "length data = n" using assms by (simp add: shape_def)
  have "fdiv float64 (fsub float64 (data ! Suc k ! j) (data ! k ! j))
             (fsub float64 (data ! Suc k ! 0) (data ! k ! 0)) = Fin 0"
    if "k < n - 1" for k
  proof -
    have k: "Suc k < n" "k < n" using that by simp_all
    have "data ! Suc k \<in> set data" "data ! k \<in> set data" using k n by simp_all
    then have v: "data ! Suc k ! j = Fin v" "data ! k ! j = Fin v" using assms(2) by simp_all
    have "positive (fsub float64 (data ! Suc k ! 0) (data ! k ! 0))"
      using assms(3) that n by (simp add: time_steps_positive_def list_all_iff)
    then obtain d where "0 < d" "fsub float64 (data ! Suc k ! 0) (data ! k ! 0) = Fin d"
      using positive_Fin by blast
    then show ?thesis by (simp add: v)
  qed
  then have "rates float64 data j = map (\<lambda>k. Fin 0) [0..<n - 1]"
    unfolding rates_def n by (intro map_cong) auto
  then show ?thesis by (simp add: map_replicate_const)
qed

lemma constant_column_features:
  assumes "shape data n c" and "2 \<le> n" and "j < 5"
    and "\<forall>r \<in> set data. r ! (j + 1) = Fin v" and "time_steps_positive data"
  shows "map (feat (feature_vector float64 data) j) [0, 1, 2, 4, 6, 7, 8, 9, 10]
     = [Fin v, Fin v, Fin v, Fin v, Fin 0, Fin 0, Fin 0, Fin 0, Fin 0]"
proof -
  have n: "0 < n" "0 < n - 1" "n \<noteq> 0" using assms(2) by simp_all
  show ?thesis
    unfolding list.map feat_components [OF assms(3)]
      constant_column_values [OF assms(1,4)] constant_column_rates [OF assms(1,4,5)]
    using n by (simp add: np_amin_replicate np_amax_replicate np_mean_zero hd_replicate
        last_replicate)
qed

section \<open>Facts about the example trajectory\<close>

lemma float64_1000: "float64 1000 = Fin 1000"
  using float64_exact_mid [of 1000 0] by simp

lemma steps_example: "time_steps_positive (map (map Fin) example_sample)"
proof -
  have "positive (fsub float64 (map (map Fin) example_sample ! Suc k ! 0)
                    (map (map Fin) example_sample ! k ! 0))" if "k < 100" for k
  proof -
    have "real (Suc k) * 1000 - real k * 1000 = 1000" by (simp add: algebra_simps)
    then show ?thesis using that by (simp add: example_sample_def float64_1000 del: of_nat_Suc)
  qed
  then show ?thesis by (simp add: time_steps_positive_def list_all_iff example_sample_def)
qed

lemma trajectory_example: "trajectory_sample (map (map Fin) example_sample)"
  using shape_Fin [OF shape_example] steps_example by (simp add: trajectory_sample_def)

lemma constant_example:
  "\<forall>r \<in> set (map (map Fin) example_sample). r ! (1 + 1) = Fin (90071992547409 / 2 ^ 47)"
  by (simp add: example_sample_def)

lemma column_example:
  "column (map (map Fin) example_sample) (1 + 1) = replicate 101 (Fin (90071992547409 / 2 ^ 47))"
  using constant_column_values [OF shape_Fin [OF shape_example] constant_example] .

lemma column_example_2:
  "column (map (map Fin) example_sample) 2 = replicate 101 (Fin (90071992547409 / 2 ^ 47))"
  using column_example by (simp only: one_add_one)

section \<open>The order of the values that are not not-a-number\<close>

lemma fle_trans: "fle a b \<Longrightarrow> fle b c \<Longrightarrow> fle a c"
  by (cases a; cases b; cases c) simp_all

lemma fle_refl: "a \<noteq> NaN \<Longrightarrow> fle a a"
  by (cases a) simp_all

lemma fmin2_le: "a \<noteq> NaN \<Longrightarrow> b \<noteq> NaN \<Longrightarrow> fle (fmin2 a b) a \<and> fmin2 a b \<noteq> NaN"
  by (cases a; cases b) (simp_all add: fmin2_def)

lemma fmax2_ge: "a \<noteq> NaN \<Longrightarrow> b \<noteq> NaN \<Longrightarrow> fle a (fmax2 a b) \<and> fmax2 a b \<noteq> NaN"
  by (cases a; cases b) (simp_all add: fmax2_def)

lemma fold_fmin2_le:
  "a \<noteq> NaN \<Longrightarrow> \<forall>x \<in> set xs. x \<noteq> NaN \<Longrightarrow> fle (fold (\<lambda>x acc. fmin2 acc x) xs a) a"
proof (induction xs arbitrary: a)
  case Nil
  then show ?case by (simp add: fle_refl)
next
  case (Cons y ys)
  have y: "y \<noteq> NaN" using Cons.prems by simp
  have 1: "fle (fmin2 a y) a" "fmin2 a y \<noteq> NaN" using fmin2_le [OF Cons.prems(1) y] by simp_all
  have "fle (fold (\<lambda>x acc. fmin2 acc x) ys (fmin2 a y)) (fmin2 a y)"
    using Cons.prems 1 by (intro Cons.IH) simp_all
  then show ?case using 1 fle_trans by auto
qed

lemma fold_fmax2_ge:
  "a \<noteq> NaN \<Longrightarrow> \<forall>x \<in> set xs. x \<noteq> NaN \<Longrightarrow> fle a (fold (\<lambda>x acc. fmax2 acc x) xs a)"
proof (induction xs arbitrary: a)
  case Nil
  then show ?case by (simp add: fle_refl)
next
  case (Cons y ys)
  have y: "y \<noteq> NaN" using Cons.prems by simp
  have 1: "fle a (fmax2 a y)" "fmax2 a y \<noteq> NaN" using fmax2_ge [OF Cons.prems(1) y] by simp_all
  have "fle (fmax2 a y) (fold (\<lambda>x acc. fmax2 acc x) ys (fmax2 a y))"
    using Cons.prems 1 by (intro Cons.IH) simp_all
  then show ?case using 1 fle_trans by auto
qed

lemma np_amin_le_amax:
  assumes "xs \<noteq> []" and "\<forall>x \<in> set xs. x \<noteq> NaN"
  shows "fle (np_amin xs) (np_amax xs)"
proof -
  obtain a ys where xs: "xs = a # ys" using assms(1) by (cases xs) auto
  have a: "a \<noteq> NaN" and ys: "\<forall>x \<in> set ys. x \<noteq> NaN" using assms(2) xs by simp_all
  have "fle (fold (\<lambda>x acc. fmin2 acc x) ys a) a" using a ys by (rule fold_fmin2_le)
  moreover have "fle a (fold (\<lambda>x acc. fmax2 acc x) ys a)" using a ys by (rule fold_fmax2_ge)
  ultimately show ?thesis unfolding xs np_amin_def np_amax_def list.sel by (rule fle_trans)
qed

lemma fsub_range:
  assumes "fle a b"
  shows "if a = b \<and> \<not> isfinite a then fsub float64 b a = NaN else fle (Fin 0) (fsub float64 b a)"
  using assms by (cases a; cases b) (simp_all add: fsub_def float64_nonneg_fle)

section \<open>Sums, means and standard deviations that are not negative\<close>

lemma fadd_Fin_not_NaN: "a \<noteq> NaN \<Longrightarrow> fadd float64 a (Fin y) \<noteq> NaN"
  by (cases a) simp_all

lemma fold_fadd_not_NaN:
  "a \<noteq> NaN \<Longrightarrow> fold (\<lambda>v acc. fadd float64 acc v) (map Fin ys) a \<noteq> NaN"
  by (induction ys arbitrary: a) (simp_all add: fadd_Fin_not_NaN)

lemma fsum_not_NaN: "fsum float64 (map Fin xs) \<noteq> NaN"
  by (cases xs) (simp_all add: fsum_def fold_fadd_not_NaN)

lemma fdiv_pos_not_NaN: "a \<noteq> NaN \<Longrightarrow> 0 < d \<Longrightarrow> fdiv float64 a (Fin d) \<noteq> NaN"
  by (cases a) simp_all

lemma np_mean_not_NaN: "xs \<noteq> [] \<Longrightarrow> np_mean float64 (map Fin xs) \<noteq> NaN"
  by (simp add: np_mean_def fdiv_pos_not_NaN fsum_not_NaN)

lemma fsub_Fin_not_NaN: "b \<noteq> NaN \<Longrightarrow> fsub float64 (Fin x) b \<noteq> NaN"
  by (cases b) (simp_all add: fsub_def)

lemma square_nonneg: "d \<noteq> NaN \<Longrightarrow> fle (Fin 0) (fmul float64 d d)"
  by (cases d) (simp_all add: float64_nonneg_fle)

lemma fadd_nonneg: "fle (Fin 0) a \<Longrightarrow> fle (Fin 0) b \<Longrightarrow> fle (Fin 0) (fadd float64 a b)"
  by (cases a; cases b) (simp_all add: float64_nonneg_fle)

lemma fold_fadd_nonneg:
  "fle (Fin 0) a \<Longrightarrow> \<forall>x \<in> set xs. fle (Fin 0) x
     \<Longrightarrow> fle (Fin 0) (fold (\<lambda>v acc. fadd float64 acc v) xs a)"
  by (induction xs arbitrary: a) (simp_all add: fadd_nonneg)

lemma fsum_nonneg: "\<forall>x \<in> set xs. fle (Fin 0) x \<Longrightarrow> fle (Fin 0) (fsum float64 xs)"
  by (cases xs) (simp_all add: fsum_def fold_fadd_nonneg)

lemma fdiv_nonneg: "fle (Fin 0) a \<Longrightarrow> 0 < d \<Longrightarrow> fle (Fin 0) (fdiv float64 a (Fin d))"
  by (cases a) (simp_all add: float64_nonneg_fle)

lemma fsqrt_nonneg: "fle (Fin 0) a \<Longrightarrow> fle (Fin 0) (fsqrt float64 a)"
  by (cases a) (simp_all add: float64_nonneg_fle)

lemma np_std_nonneg:
  assumes "xs \<noteq> []"
  shows "fle (Fin 0) (np_std float64 (map Fin xs))"
proof -
  define av where "av = np_mean float64 (map Fin xs)"
  define sq where "sq = map (\<lambda>d. fmul float64 d d) (map (\<lambda>v. fsub float64 v av) (map Fin xs))"
  have av: "av \<noteq> NaN" unfolding av_def using assms by (rule np_mean_not_NaN)
  have "\<forall>x \<in> set sq. fle (Fin 0) x"
    by (auto simp add: sq_def square_nonneg fsub_Fin_not_NaN av)
  then have "fle (Fin 0) (fsum float64 sq)" by (rule fsum_nonneg)
  moreover have "0 < real (length sq)" using assms by (simp add: sq_def)
  ultimately have "fle (Fin 0) (np_mean float64 sq)"
    unfolding np_mean_def by (rule fdiv_nonneg)
  then have "fle (Fin 0) (fsqrt float64 (np_mean float64 sq))" by (rule fsqrt_nonneg)
  then show ?thesis by (simp add: np_std_def Let_def sq_def av_def)
qed

section \<open>Rates over positive time differences\<close>

lemma rates_not_NaN:
  assumes "shape m n c" and "0 < c" and "j < c" and "time_steps_positive (map (map Fin) m)"
  shows "\<forall>x \<in> set (rates float64 (map (map Fin) m) j). x \<noteq> NaN"
proof -
  have n: "length m = n" using assms by (simp add: shape_def)
  have "fdiv float64 (fsub float64 (map (map Fin) m ! Suc k ! j) (map (map Fin) m ! k ! j))
             (fsub float64 (map (map Fin) m ! Suc k ! 0) (map (map Fin) m ! k ! 0)) \<noteq> NaN"
    if "k < n - 1" for k
  proof -
    have k: "Suc k < n" "k < n" using that by simp_all
    have l: "length (m ! Suc k) = c" "length (m ! k) = c"
      using assms(1) k by (simp_all add: shape_nth)
    have "positive (fsub float64 (map (map Fin) m ! Suc k ! 0) (map (map Fin) m ! k ! 0))"
      using assms(4) that n by (simp add: time_steps_positive_def list_all_iff)
    then obtain d where d: "0 < d"
      "fsub float64 (map (map Fin) m ! Suc k ! 0) (map (map Fin) m ! k ! 0) = Fin d"
      using positive_Fin by blast
    have "fsub float64 (map (map Fin) m ! Suc k ! j) (map (map Fin) m ! k ! j) \<noteq> NaN"
      using k l n assms(3) by simp
    then show ?thesis unfolding d(2) using d(1) by (rule fdiv_pos_not_NaN)
  qed
  then show ?thesis by (auto simp add: rates_def n)
qed

lemma features_consistent:
  assumes "shape m n c" and "2 \<le> n" and "6 \<le> c"
    and "time_steps_positive (map (map Fin) m)" and "j < 5"
  shows "group_consistent (feature_vector float64 (map (map Fin) m)) j"
proof -
  have n: "length m = n" using assms by (simp add: shape_def)
  have c: "0 < c" "j + 1 < c" using assms by simp_all
  define x where "x = column m (j + 1)"
  define r where "r = rates float64 (map (map Fin) m) (j + 1)"
  have x: "x \<noteq> []" using n assms by (auto simp add: x_def column_def)
  have cx: "column (map (map Fin) m) (j + 1) = map Fin x"
    using assms(1) c(2) by (simp add: column_Fin x_def)
  have r: "r \<noteq> []" using n assms by (simp add: r_def rates_def)
  have rn: "\<forall>v \<in> set r. v \<noteq> NaN"
    unfolding r_def using assms(1) c assms(4) by (rule rates_not_NaN)
  have 1: "Min (set x) \<le> hd x" "hd x \<le> Max (set x)"
    "Min (set x) \<le> last x" "last x \<le> Max (set x)"
    using x by simp_all
  then have 2: "0 \<le> Max (set x) - Min (set x)" by linarith
  have 3: "fle (Fin 0) (np_std float64 (map Fin x))" using x by (rule np_std_nonneg)
  have 4: "fle (np_amin r) (np_amax r)" using r rn by (rule np_amin_le_amax)
  have 5: "if np_amin r = np_amax r \<and> \<not> isfinite (np_amin r)
     then fsub float64 (np_amax r) (np_amin r) = NaN
     else fle (Fin 0) (fsub float64 (np_amax r) (np_amin r))"
    using 4 by (rule fsub_range)
  show ?thesis
    unfolding group_consistent_def Let_def feat_components [OF assms(5)] cx r_def [symmetric]
    using x 1 2 3 4 5
    by (simp add: np_amin_Fin np_amax_Fin hd_map last_map float64_nonneg_fle)
qed

section \<open>Facts about the trajectory of four rows\<close>

lemma shape_rate: "shape rate_sample 4 6"
  by (simp add: shape_def rate_sample_def list_all_iff)

lemma group_0: "(0::nat) < 5"
  by simp

lemma group_1: "(1::nat) < 5"
  by simp

lemma float64_1: "float64 1 = Fin 1"
  using float64_exact_mid [of 1 0] by simp

lemma float64_10: "float64 10 = Fin 10"
  using float64_exact_mid [of 10 0] by simp

lemma tenth: "float64 (1 / 10) = Fin (3602879701896397 / 2 ^ 55)"
  using float64_eval_mid [of "- 4" "1 / 10" 7205759403792794]
  by (simp add: round_half_even_def)

lemma steps_rate: "time_steps_positive (map (map Fin) rate_sample)"
proof -
  have "positive (fsub float64 (map (map Fin) rate_sample ! Suc k ! 0)
                    (map (map Fin) rate_sample ! k ! 0))" if "k < 3" for k
  proof -
    have "real (Suc k) * 10 - real k * 10 = 10" by (simp add: algebra_simps)
    then show ?thesis using that by (simp add: rate_sample_def float64_10 del: of_nat_Suc)
  qed
  then show ?thesis by (simp add: time_steps_positive_def list_all_iff rate_sample_def)
qed

lemma rates_rate:
  "rates float64 (map (map Fin) rate_sample) (0 + 1) = replicate 3 (Fin (3602879701896397 / 2 ^ 55))"
proof -
  have "fdiv float64
          (fsub float64 (map (map Fin) rate_sample ! Suc k ! 1) (map (map Fin) rate_sample ! k ! 1))
          (fsub float64 (map (map Fin) rate_sample ! Suc k ! 0) (map (map Fin) rate_sample ! k ! 0))
        = Fin (3602879701896397 / 2 ^ 55)" if "k < 3" for k
  proof -
    show ?thesis
      using that by (simp add: rate_sample_def float64_10 float64_1 tenth distrib_right)
  qed
  then have "rates float64 (map (map Fin) rate_sample) (0 + 1)
      = map (\<lambda>k. Fin (3602879701896397 / 2 ^ 55)) [0..<3]"
    unfolding rates_def by (intro map_cong) (auto simp add: rate_sample_def)
  then show ?thesis by (simp add: map_replicate_const)
qed

lemma sum_2_rate:
  "fadd float64 (Fin (3602879701896397 / 2 ^ 55)) (Fin (3602879701896397 / 2 ^ 55))
     = Fin (3602879701896397 / 2 ^ 54)"
  using float64_exact_mid [of 3602879701896397 "- 54"] by simp

lemma sum_3_rate:
  "fadd float64 (Fin (3602879701896397 / 2 ^ 54)) (Fin (3602879701896397 / 2 ^ 55))
     = Fin (5404319552844596 / 2 ^ 54)"
  using float64_eval_mid
    [of "- 2" "3602879701896397 / 2 ^ 54 + 3602879701896397 / 2 ^ 55" 5404319552844596]
  by (simp add: round_half_even_def)

lemma quotient_3_rate:
  "float64 (5404319552844596 / 2 ^ 54 / 3) = Fin (7205759403792795 / 2 ^ 56)"
  using float64_eval_mid [of "- 4" "5404319552844596 / 2 ^ 54 / 3" 7205759403792795]
  by (simp add: round_half_even_def)

lemma np_mean_rate:
  "np_mean float64 (replicate 3 (Fin (3602879701896397 / 2 ^ 55)))
     = Fin (7205759403792795 / 2 ^ 56)"
proof -
  have 3: "(3::nat) = Suc (Suc (Suc 0))" by simp
  have "np_mean float64 (replicate 3 (Fin (3602879701896397 / 2 ^ 55)))
      = fdiv float64 (Fin (5404319552844596 / 2 ^ 54)) (Fin 3)"
    unfolding np_mean_def length_replicate of_nat_numeral
    unfolding 3 replicate_Suc replicate_0 fsum_def list.case fold_Cons fold_Nil comp_apply id_apply
      sum_2_rate sum_3_rate ..
  also have "\<dots> = float64 (5404319552844596 / 2 ^ 54 / 3)"
    by (rule fdiv_Fin) simp
  also have "\<dots> = Fin (7205759403792795 / 2 ^ 56)"
    by (rule quotient_3_rate)
  finally show ?thesis .
qed

lemma features_rate:
  "feat (feature_vector float64 (map (map Fin) rate_sample)) 0 8 = Fin (7205759403792795 / 2 ^ 56)"
  "feat (feature_vector float64 (map (map Fin) rate_sample)) 0 9 = Fin (3602879701896397 / 2 ^ 55)"
  unfolding feat_components [OF group_0] rates_rate
  using np_mean_rate by (simp_all add: np_amax_replicate)

section \<open>Facts about the steep trajectory and the array with not-a-number\<close>

lemma shape_steep: "shape steep_sample 2 6"
  by (simp add: shape_def steep_sample_def)

lemma shape_nan: "shape nan_sample 2 6"
  by (simp add: shape_def nan_sample_def)

lemma float64_tiny: "float64 tiny = Fin tiny"
  unfolding tiny_def by (rule float64_powi) (simp_all add: emin_def emax_def)

lemma float64_huge: "float64 huge = Fin huge"
  unfolding huge_def by (rule float64_powi) (simp_all add: emin_def emax_def)

lemma tiny_pos: "0 < tiny"
  by (simp add: tiny_def)

lemma float64_steep: "float64 (huge / tiny) = PInf"
proof -
  have "(2::real) powi (1000 - (- 1000)) = 2 powi 1000 / 2 powi (- 1000)"
    by (rule power_int_diff) simp
  moreover have "(1000::int) - (- 1000) = 2000" by simp
  ultimately have "huge / tiny = 2 powi 2000"
    unfolding huge_def tiny_def by (simp only:)
  moreover have "(2::real) powi (emax + 1) \<le> 2 powi 2000"
    by (rule powi_mono2) (simp add: emax_def)
  ultimately show ?thesis by (simp only: float64_overflow)
qed

lemma steps_steep: "time_steps_positive (map (map Fin) steep_sample)"
  using tiny_pos by (simp add: time_steps_positive_def steep_sample_def float64_tiny)

lemma rates_steep: "rates float64 (map (map Fin) steep_sample) (0 + 1) = [PInf]"
  using tiny_pos
  by (simp add: rates_def steep_sample_def float64_tiny float64_huge float64_steep)

lemma features_steep:
  "feat (feature_vector float64 (map (map Fin) steep_sample)) 0 7 = PInf"
  "feat (feature_vector float64 (map (map Fin) steep_sample)) 0 9 = PInf"
  "feat (feature_vector float64 (map (map Fin) steep_sample)) 0 10 = NaN"
  unfolding feat_components [OF group_0] rates_steep
  by (simp_all add: np_amin_def np_amax_def fsub_def)

lemma features_nan:
  "feat (feature_vector float64 nan_sample) 0 0 = NaN"
  "feat (feature_vector float64 nan_sample) 0 2 = NaN"
  unfolding feat_components [OF group_0]
  by (simp_all add: column_def nan_sample_def np_amin_def fmin2_def)

lemma features_example:
  "feat (feature_vector float64 (map (map Fin) example_sample)) 1 2 = Fin (90071992547409 / 2 ^ 47)"
  "feat (feature_vector float64 (map (map Fin) example_sample)) 1 3 = Fin (5764607523034175 / 2 ^ 53)"
  "feat (feature_vector float64 (map (map Fin) example_sample)) 1 5 = Fin (1 / 2 ^ 53)"
  unfolding feat_components [OF group_1]
    column_example np_mean_example np_std_example
  by (simp_all add: np_amin_replicate)

section \<open>The claims\<close>

subsection \<open>C1: the feature vector has 55 values in the specified order\<close>

text \<open>
  Claim C1. For every array of 101 rows and 6 columns (column 0 the time, columns 1 to 5
  the elements a, e, i, Omega, omega), \<open>parse\<close> returns an array of one row. The row
  has exactly 55 values and is the concatenation, for the element columns 1 to 5 in this
  order, of the eleven values initial, final, minimum, mean, maximum, standard
  deviation, range, rate minimum, rate mean, rate maximum and rate range, where each rate
  is the difference of the element between consecutive rows divided by the corresponding
  difference of time. This holds whatever the rounding of the arithmetic is.
\<close>

theorem parse_features_in_order:
  assumes "shape data 101 6"
  shows "parse rnd data = Inr [feature_vector rnd data] \<and> length (feature_vector rnd data) = 55"
  using parse_features [OF assms] by simp

text \<open>The theorem of claim C1 at the example trajectory, in the program's arithmetic.\<close>

theorem parse_features_in_order_witness:
  "shape (map (map Fin) example_sample) 101 6
   \<and> parse float64 (map (map Fin) example_sample)
       = Inr [feature_vector float64 (map (map Fin) example_sample)]
   \<and> length (feature_vector float64 (map (map Fin) example_sample)) = 55"
  using parse_features_in_order [OF shape_Fin [OF shape_example], of float64]
    shape_Fin [OF shape_example]
  by simp

subsection \<open>C2: the column order of the file adapter\<close>

text \<open>
  Claim C2 says that output column \<open>j\<close> of the array built by \<open>compute_from_file\<close>
  is input column \<open>col_order[j]\<close>. The program takes \<open>col_order[0]\<close> for column 0
  but \<open>col_order[col_order[j]]\<close> for every later column. At the column order
  \<open>[1, 0, 2, 3, 4, 5]\<close> on the example table, output column 1 is input column 1,
  where the claim asks for input column 0 (the time), and the two columns differ. At the
  column order \<open>[0, 1, 2, 3, 4, 7]\<close> on a table of 8 columns, where the claim asks
  for input column 7 as the last output column, the program raises IndexError.
\<close>

theorem compute_from_file_data_swapped:
  "compute_from_file_data example_table [1, 0, 2, 3, 4, 5]
     = Inr (map (\<lambda>row. [row ! 1, row ! 1, row ! 2, row ! 3, row ! 4, row ! 5]) example_table)
   \<and> column example_table 1 \<noteq> column example_table 0
   \<and> compute_from_file_data wide_table [0, 1, 2, 3, 4, 7] = Inl IndexError"
proof -
  have "compute_from_file_data example_table (map int [1, 0, 2, 3, 4, 5])
      = Inr (map (\<lambda>row. row ! hd [1, 0, 2, 3, 4, 5 :: nat]
               # map (\<lambda>i. row ! ([1, 0, 2, 3, 4, 5] ! i)) (tl [1, 0, 2, 3, 4, 5]))
             (take 101 example_table))"
    by (intro compute_from_file_data_nat [OF shape_example_table]) auto
  moreover have "take 101 example_table = example_table"
    using shape_example_table by (simp add: shape_def)
  ultimately have 1: "compute_from_file_data example_table [1, 0, 2, 3, 4, 5]
     = Inr (map (\<lambda>row. [row ! 1, row ! 1, row ! 2, row ! 3, row ! 4, row ! 5]) example_table)"
    by simp
  have "column example_table 1 ! 0 \<noteq> column example_table 0 ! 0"
    by (simp add: column_def example_table_def example_sample_def)
  then have 2: "column example_table 1 \<noteq> column example_table 0" by metis
  show ?thesis using 1 2 compute_from_file_data_wide by (intro conjI)
qed

subsection \<open>C3: a zero time difference\<close>

text \<open>
  Claim C3, as amended. The program has no guard against equal times. For every array
  of finite numbers with at least 2 rows and at least 6 columns in which two consecutive
  rows have the same time, \<open>parse\<close> raises no error: it returns one row of 55 values,
  and in it the mean rate of each of the five elements is not a finite number (it is an
  infinity or not-a-number, from the division by zero). This holds in the program's
  arithmetic and in exact arithmetic alike.
\<close>

theorem parse_zero_timestep:
  assumes "shape m n c" and "2 \<le> n" and "6 \<le> c"
    and "Suc k < n" and "m ! Suc k ! 0 = m ! k ! 0" and "j < 5"
  shows "(\<exists>fs. parse float64 (map (map Fin) m) = Inr [fs] \<and> length fs = 55
            \<and> \<not> isfinite (feat fs j 8))
     \<and> (\<exists>fs. parse Fin (map (map Fin) m) = Inr [fs] \<and> length fs = 55
            \<and> \<not> isfinite (feat fs j 8))"
  using parse_features [OF shape_Fin [OF assms(1)] assms(2,3)]
    rate_mean_not_finite [where rnd = float64, OF assms(1,3,4,5,6) float64_zero]
    rate_mean_not_finite [where rnd = Fin, OF assms(1,3,4,5,6) refl]
  by simp

text \<open>The theorem of claim C3 at the trajectory whose rows 0 and 1 have time 0.\<close>

theorem parse_zero_timestep_witness:
  "shape degenerate_sample 101 6 \<and> degenerate_sample ! Suc 0 ! 0 = degenerate_sample ! 0 ! 0
   \<and> (\<exists>fs. parse float64 (map (map Fin) degenerate_sample) = Inr [fs] \<and> length fs = 55
         \<and> \<not> isfinite (feat fs 0 8))
   \<and> (\<exists>fs. parse Fin (map (map Fin) degenerate_sample) = Inr [fs] \<and> length fs = 55
         \<and> \<not> isfinite (feat fs 0 8))"
  using parse_zero_timestep [OF shape_degenerate _ _ _ degenerate_step, of 0]
    shape_degenerate degenerate_step
  by simp

text \<open>
  Claim C3 as stated fails: on the trajectory whose rows 0 and 1 have the same time,
  \<open>parse\<close> does not fail; it returns the 55 values, of which the mean rate of the
  first element is not finite.
\<close>

theorem parse_zero_timestep_returns:
  "degenerate_sample ! Suc 0 ! 0 = degenerate_sample ! 0 ! 0
   \<and> parse float64 (map (map Fin) degenerate_sample)
       = Inr [feature_vector float64 (map (map Fin) degenerate_sample)]
   \<and> length (feature_vector float64 (map (map Fin) degenerate_sample)) = 55
   \<and> \<not> isfinite (feat (feature_vector float64 (map (map Fin) degenerate_sample)) 0 8)"
  using parse_features [OF shape_Fin [OF shape_degenerate], of float64]
    rate_mean_not_finite [where rnd = float64 and j = 0, OF shape_degenerate _ _ degenerate_step _ float64_zero]
    degenerate_step
  by simp

subsection \<open>C4: the number of rows of the file\<close>

text \<open>
  Claim C4, as amended. \<open>compute_from_file\<close> has no check of the number of rows. For
  every table with at least 2 rows and at least 6 columns, with the default column order,
  it raises no error and returns the feature vector of the first 101 rows of the table,
  which are all its rows when there are fewer: a file of 150 rows gives the features of
  its first 101 rows, a file of 50 rows those of its 50 rows.
\<close>

theorem compute_from_file_any_row_count:
  assumes "shape table n c" and "2 \<le> n" and "6 \<le> c"
  shows "compute_from_file rnd table default_col_order
       = Inr [feature_vector rnd (take 101 table)]
     \<and> length (take 101 table) = min n 101"
  using compute_from_file_default [OF assms] assms(1) by (simp add: shape_def)

text \<open>The theorem of claim C4 at a table of 150 rows, in the program's arithmetic.\<close>

theorem compute_from_file_any_row_count_witness:
  "shape table_150 150 6
   \<and> compute_from_file float64 table_150 default_col_order
       = Inr [feature_vector float64 (take 101 table_150)]
   \<and> length (take 101 table_150) = min 150 101"
  using compute_from_file_any_row_count [OF shape_table_150, of float64] shape_table_150
  by simp

text \<open>
  Claim C4 as stated fails: on a table of 50 rows \<open>compute_from_file\<close> raises no
  error and returns the feature vector of the 50 rows.
\<close>

theorem compute_from_file_50_rows:
  "length table_50 = 50
   \<and> compute_from_file float64 table_50 default_col_order
       = Inr [feature_vector float64 table_50]"
  using compute_from_file_default [OF shape_table_50, of float64] shape_table_50
  by (simp add: shape_def)

subsection \<open>C5: the barycentric flag\<close>

text \<open>
  Claim C5 says that the frame in which \<open>compute_from_aei\<close> adds the body depends on
  the flag \<open>barycentric\<close>. In the program the arguments of the call that adds the
  body are the same for both values of the flag, the primary passed is always \<open>None\<close>,
  and so the whole result is the same for both values.
\<close>

theorem compute_from_aei_ignores_barycentric:
  "compute_from_aei_args rb sim a ecc inc Omega omega M True
     = compute_from_aei_args rb sim a ecc inc Omega omega M False
   \<and> arg_primary (compute_from_aei_args rb sim a ecc inc Omega omega M True) = None
   \<and> compute_from_aei rb sim a ecc inc Omega omega M True savename
     = compute_from_aei rb sim a ecc inc Omega omega M False savename"
  by (simp add: compute_from_aei_args_def compute_from_aei_def)

subsection \<open>C6: recorded angles lie in [0, 360)\<close>

text \<open>
  Claim C6 says that the values of Omega and omega that \<open>run_simulation\<close> records are
  at least 0 and less than 360. The program takes the remainder \<open>np.degrees(o.Omega) % 360\<close>
  for this, and the remainder of doubles misses a case: a negative angle that is small
  against 360 has itself as the remainder of the truncated division, 360 is added to it,
  and the sum rounds to 360. With an integrator whose orbits have their node at
  \<open>- 2 powi (- 60)\<close> radians, every one of the 101 rows and every one of the 202 lines
  of the trace records the angle 360, which is not less than 360. The two
  angles that the claim names are recorded as it says: 370 as 10 and -10 as 350.
\<close>

theorem run_simulation_records_360:
  "run_simulation example_rebound () ''trace.txt''
     = Inr ((),
         map (\<lambda>t. [Fin t, Fin 40, Fin (1 / 4), Fin (1007958012753983 / 2 ^ 47), Fin 360, Fin 0])
           time_outs,
         Some (Text ''id, t, a, e, i, Omega, omega, M''
           # concat (map (\<lambda>t.
               [Values (- 1)
                  [Fin t, Fin 40, Fin (1 / 4), Fin (1007958012753983 / 2 ^ 47), Fin 360, Fin 0,
                   Fin 0],
                Values 0
                  [Fin t, Fin 40, Fin (1 / 4), Fin (1007958012753983 / 2 ^ 47), Fin 360, Fin 0,
                   Fin 0]])
             time_outs)))
   \<and> length time_outs = 101
   \<and> orbit_Omega example_orbit = Fin (- (1 / 2 ^ 60))
   \<and> degrees (orbit_Omega example_orbit) = Fin (- (1007958012753983 / 2 ^ 104))
   \<and> py_mod (degrees (orbit_Omega example_orbit)) 360 = Fin 360
   \<and> \<not> angle_in_range (Fin 360)
   \<and> py_mod (Fin 370) 360 = Fin 10
   \<and> py_mod (Fin (- 10)) 360 = Fin 350"
proof -
  have 1: "orbit_Omega example_orbit = Fin (- (1 / 2 ^ 60))"
    by (simp add: example_orbit_def)
  have 2: "length time_outs = 101" by (simp add: time_outs_def)
  have 3: "run_simulation example_rebound () ''trace.txt''
     = Inr ((), map example_row time_outs,
         Some (Text ''id, t, a, e, i, Omega, omega, M'' # concat (map example_lines time_outs)))"
    by (simp add: run_simulation_example)
  have 4: "\<not> angle_in_range (Fin 360)" by simp
  show ?thesis
    unfolding 3 1 degrees_node py_mod_node py_mod_370 py_mod_minus_10 2
      example_row_fun example_lines_fun
    using 4 by (simp only: simp_thms)
qed

subsection \<open>C7: the standard deviation is the population standard deviation\<close>



subsection \<open>C8: a constant column\<close>

text \<open>
  Claim C8 as stated fails. The eccentricity column of the example trajectory holds the
  double \<open>0.6399999999999935\<close>, which is \<open>90071992547409 / 2 ^ 47\<close>, in each of
  its 101 rows. \<open>np.mean\<close> adds the 101 values one after the other and rounds every
  sum: the last sum is rounded down, and the mean that \<open>parse\<close> returns is
  \<open>5764607523034175 / 2 ^ 53\<close>, the double next below the value of the column.
  The standard deviation is then \<open>1 / 2 ^ 53\<close> and not 0.
\<close>

theorem constant_column_mean_rounded:
  "trajectory_sample (map (map Fin) example_sample)
   \<and> column (map (map Fin) example_sample) 2 = replicate 101 (Fin (90071992547409 / 2 ^ 47))
   \<and> parse float64 (map (map Fin) example_sample)
       = Inr [feature_vector float64 (map (map Fin) example_sample)]
   \<and> feat (feature_vector float64 (map (map Fin) example_sample)) 1 3
       = Fin (5764607523034175 / 2 ^ 53)
   \<and> feat (feature_vector float64 (map (map Fin) example_sample)) 1 3
       \<noteq> Fin (90071992547409 / 2 ^ 47)
   \<and> feat (feature_vector float64 (map (map Fin) example_sample)) 1 5 = Fin (1 / 2 ^ 53)
   \<and> feat (feature_vector float64 (map (map Fin) example_sample)) 1 5 \<noteq> Fin 0"
proof -
  have p: "parse float64 (map (map Fin) example_sample)
       = Inr [feature_vector float64 (map (map Fin) example_sample)]"
    using shape_Fin [OF shape_example] by (rule parse_features) simp_all
  have m: "Fin (5764607523034175 / 2 ^ 53) \<noteq> Fin (90071992547409 / 2 ^ 47)"
    and s: "Fin (1 / 2 ^ 53) \<noteq> Fin 0"
    by simp_all
  show ?thesis
    unfolding features_example
    using trajectory_example column_example_2 p m s by (intro conjI) simp_all
qed

text \<open>
  Claim C8, as amended. For every trajectory sample (101 rows, 6 columns, every time
  difference of consecutive rows, as the program computes it, finite and greater than
  zero) in which an element column holds the same finite value \<open>v\<close> in every row,
  \<open>parse\<close> returns a feature vector in which the initial value, the final value, the
  minimum and the maximum of that element are \<open>v\<close>, and its range, rate minimum, rate
  mean, rate maximum and rate range are 0. The mean and the standard deviation of the
  element are what the rounded summation gives.
\<close>

theorem constant_column:
  assumes "trajectory_sample data" and "j < 5" and "\<forall>r \<in> set data. r ! (j + 1) = Fin v"
  shows "\<exists>fs. parse float64 data = Inr [fs]
     \<and> map (feat fs j) [0, 1, 2, 4, 6, 7, 8, 9, 10]
         = [Fin v, Fin v, Fin v, Fin v, Fin 0, Fin 0, Fin 0, Fin 0, Fin 0]"
proof -
  have s: "shape data 101 6" and t: "time_steps_positive data"
    using assms(1) by (simp_all add: trajectory_sample_def)
  have p: "parse float64 data = Inr [feature_vector float64 data]"
    using s by (rule parse_features) simp_all
  have q: "map (feat (feature_vector float64 data) j) [0, 1, 2, 4, 6, 7, 8, 9, 10]
         = [Fin v, Fin v, Fin v, Fin v, Fin 0, Fin 0, Fin 0, Fin 0, Fin 0]"
    using s _ assms(2,3) t by (rule constant_column_features) simp
  show ?thesis by (rule exI [of _ "feature_vector float64 data"], rule conjI, rule p, rule q)
qed

text \<open>
  The theorem of claim C8 at the example trajectory, whose eccentricity column
  (element 1) is constant.
\<close>

theorem constant_column_witness:
  "trajectory_sample (map (map Fin) example_sample)
   \<and> column (map (map Fin) example_sample) 2 = replicate 101 (Fin (90071992547409 / 2 ^ 47))
   \<and> (\<exists>fs. parse float64 (map (map Fin) example_sample) = Inr [fs]
     \<and> map (feat fs 1) [0, 1, 2, 4, 6, 7, 8, 9, 10]
         = [Fin (90071992547409 / 2 ^ 47), Fin (90071992547409 / 2 ^ 47),
            Fin (90071992547409 / 2 ^ 47), Fin (90071992547409 / 2 ^ 47),
            Fin 0, Fin 0, Fin 0, Fin 0, Fin 0])"
  using constant_column [OF trajectory_example group_1 constant_example]
    trajectory_example column_example_2
  by (intro conjI)

subsection \<open>C9: no validation of the shape\<close>

text \<open>
  Claim C9. For every array with at least 2 rows and at least 6 columns, whatever the
  number of rows, \<open>parse\<close> raises no error and returns one row of 55 values, the
  feature vector of the array: its statistics are taken over the columns of the array,
  which have as many entries as the array has rows, and over the rates, of which there
  is one less. This holds whatever the rounding of the arithmetic is.
\<close>

theorem parse_no_shape_validation:
  assumes "shape data n c" and "2 \<le> n" and "6 \<le> c"
  shows "parse rnd data = Inr [feature_vector rnd data]
     \<and> length (feature_vector rnd data) = 55
     \<and> length (column data j) = n \<and> length (rates rnd data j) = n - 1"
  using parse_features [OF assms] assms(1) by (simp add: shape_def rates_def)

text \<open>The theorem of claim C9 at a trajectory of two rows, in the program's arithmetic.\<close>

theorem parse_no_shape_validation_witness:
  "shape (map (map Fin) short_sample) 2 6
   \<and> parse float64 (map (map Fin) short_sample)
       = Inr [feature_vector float64 (map (map Fin) short_sample)]
   \<and> length (feature_vector float64 (map (map Fin) short_sample)) = 55
   \<and> length (column (map (map Fin) short_sample) 1) = 2
   \<and> length (rates float64 (map (map Fin) short_sample) 1) = 2 - 1"
  using parse_no_shape_validation [OF shape_Fin [OF shape_short], of float64 1]
    shape_Fin [OF shape_short]
  by simp

subsection \<open>C10: the feature vector is internally consistent\<close>

text \<open>
  Claim C10 as stated fails, in four ways. In the example trajectory the eccentricity
  is \<open>0.6399999999999935\<close> in all 101 rows, and the mean that \<open>parse\<close> returns, the
  rounded sum divided by 101, is the double next below it: the mean is less than the
  minimum. In the trajectory of four rows, whose times are positive and 10 apart, the
  three rates are all the double nearest to one tenth, and their mean, the rounded sum
  divided by 3, is the double next above it: the rate mean is greater than the rate
  maximum. In the steep trajectory, whose one time difference is positive, the one rate
  overflows to infinity, the rate minimum and the rate maximum are both infinity and the
  rate range, their difference, is not-a-number, which is not at least 0. In the array
  with not-a-number as an entry, the minimum of the column is not-a-number, and the
  initial value is not at least the minimum.
\<close>

theorem parse_not_consistent:
  "parse float64 (map (map Fin) example_sample)
       = Inr [feature_vector float64 (map (map Fin) example_sample)]
   \<and> time_steps_positive (map (map Fin) example_sample)
   \<and> feat (feature_vector float64 (map (map Fin) example_sample)) 1 2
       = Fin (90071992547409 / 2 ^ 47)
   \<and> feat (feature_vector float64 (map (map Fin) example_sample)) 1 3
       = Fin (5764607523034175 / 2 ^ 53)
   \<and> \<not> fle (feat (feature_vector float64 (map (map Fin) example_sample)) 1 2)
            (feat (feature_vector float64 (map (map Fin) example_sample)) 1 3)
   \<and> parse float64 (map (map Fin) rate_sample)
       = Inr [feature_vector float64 (map (map Fin) rate_sample)]
   \<and> time_steps_positive (map (map Fin) rate_sample)
   \<and> feat (feature_vector float64 (map (map Fin) rate_sample)) 0 8
       = Fin (7205759403792795 / 2 ^ 56)
   \<and> feat (feature_vector float64 (map (map Fin) rate_sample)) 0 9
       = Fin (3602879701896397 / 2 ^ 55)
   \<and> \<not> fle (feat (feature_vector float64 (map (map Fin) rate_sample)) 0 8)
            (feat (feature_vector float64 (map (map Fin) rate_sample)) 0 9)
   \<and> parse float64 (map (map Fin) steep_sample)
       = Inr [feature_vector float64 (map (map Fin) steep_sample)]
   \<and> time_steps_positive (map (map Fin) steep_sample)
   \<and> feat (feature_vector float64 (map (map Fin) steep_sample)) 0 7 = PInf
   \<and> feat (feature_vector float64 (map (map Fin) steep_sample)) 0 9 = PInf
   \<and> feat (feature_vector float64 (map (map Fin) steep_sample)) 0 10 = NaN
   \<and> \<not> fle (Fin 0) (feat (feature_vector float64 (map (map Fin) steep_sample)) 0 10)
   \<and> parse float64 nan_sample = Inr [feature_vector float64 nan_sample]
   \<and> feat (feature_vector float64 nan_sample) 0 2 = NaN
   \<and> \<not> fle (feat (feature_vector float64 nan_sample) 0 2)
            (feat (feature_vector float64 nan_sample) 0 0)"
proof -
  have 1: "parse float64 (map (map Fin) example_sample)
       = Inr [feature_vector float64 (map (map Fin) example_sample)]"
    using shape_Fin [OF shape_example] by (rule parse_features) simp_all
  have 2: "parse float64 (map (map Fin) rate_sample)
       = Inr [feature_vector float64 (map (map Fin) rate_sample)]"
    using shape_Fin [OF shape_rate] by (rule parse_features) simp_all
  have 3: "parse float64 (map (map Fin) steep_sample)
       = Inr [feature_vector float64 (map (map Fin) steep_sample)]"
    using shape_Fin [OF shape_steep] by (rule parse_features) simp_all
  have 4: "parse float64 nan_sample = Inr [feature_vector float64 nan_sample]"
    using shape_nan by (rule parse_features) simp_all
  have 5: "\<not> fle (Fin (90071992547409 / 2 ^ 47)) (Fin (5764607523034175 / 2 ^ 53))"
    and 6: "\<not> fle (Fin (7205759403792795 / 2 ^ 56)) (Fin (3602879701896397 / 2 ^ 55))"
    and 7: "\<not> fle (Fin 0) NaN" and 8: "\<not> fle NaN NaN"
    by simp_all
  show ?thesis
    unfolding features_example features_rate features_steep features_nan
    using 1 2 3 4 5 6 7 8 steps_example steps_rate steps_steep
    by (intro conjI) simp_all
qed

text \<open>
  Claim C10, as amended. For every array of finite numbers with at least 2 rows and at
  least 6 columns whose time differences of consecutive rows, as the program computes
  them, are all finite and greater than zero, the feature vector that \<open>parse\<close> returns
  is consistent in each of its five groups: the initial and the final value lie between
  the minimum and the maximum, the range is the maximum minus the minimum and is not
  negative, the standard deviation is not negative, the rate minimum is at most the rate
  maximum, and the rate range is the rate maximum minus the rate minimum; it is not
  negative, except that it is not-a-number when the rate minimum and the rate maximum are
  the same infinity. Nothing is said of where the mean and the rate mean lie.
\<close>

theorem parse_internally_consistent:
  assumes "shape m n c" and "2 \<le> n" and "6 \<le> c"
    and "time_steps_positive (map (map Fin) m)" and "j < 5"
  shows "\<exists>fs. parse float64 (map (map Fin) m) = Inr [fs] \<and> group_consistent fs j"
proof -
  have "parse float64 (map (map Fin) m) = Inr [feature_vector float64 (map (map Fin) m)]"
    using shape_Fin [OF assms(1)] assms(2,3) by (rule parse_features)
  then show ?thesis using features_consistent [OF assms] by (intro exI conjI)
qed

text \<open>
  The theorem of claim C10 at the eccentricity of the example trajectory, the group in
  which the mean is less than the minimum.
\<close>

theorem parse_internally_consistent_witness:
  "shape example_sample 101 6 \<and> time_steps_positive (map (map Fin) example_sample)
   \<and> (\<exists>fs. parse float64 (map (map Fin) example_sample) = Inr [fs] \<and> group_consistent fs 1)"
  using parse_internally_consistent [OF shape_example _ _ steps_example group_1]
    shape_example steps_example
  by simp

end
